theory Spec2Isabelle
  imports Complex_Main
begin

section \<open>JavaScript strings and values\<close>

text \<open>
  A JavaScript string is modelled as a \<^typ>\<open>string\<close> whose characters are the code units
  U+0000 to U+00FF. Strings with larger code units are outside the model. A value that may
  be \<^verbatim>\<open>undefined\<close> (or \<^verbatim>\<open>null\<close>) is an \<^typ>\<open>'a option\<close>, with \<^term>\<open>None\<close> for the
  absent value.
\<close>

text \<open>
  The code units below 256 that \<^verbatim>\<open>String.prototype.trim\<close> strips: TAB, LF, VT, FF, CR,
  SPACE and NO-BREAK SPACE.
\<close>

definition isWhiteSpace :: "char \<Rightarrow> bool" where
  "isWhiteSpace c =
     (let n = (of_char c :: nat) in (9 \<le> n \<and> n \<le> 13) \<or> n = 32 \<or> n = 160)"

definition trim :: "string \<Rightarrow> string" where
  "trim s = rev (dropWhile isWhiteSpace (rev (dropWhile isWhiteSpace s)))"

text \<open>
  The code units below 256 that \<^verbatim>\<open>toLowerCase\<close> changes: A to Z, and U+00C0 to U+00DE
  without the multiplication sign U+00D7. Each moves up by 32, which sets bit 5.
\<close>

definition isUpperCase :: "char \<Rightarrow> bool" where
  "isUpperCase c =
     (let n = (of_char c :: nat) in
        (65 \<le> n \<and> n \<le> 90) \<or> (192 \<le> n \<and> n \<le> 222 \<and> n \<noteq> 215))"

definition toLowerChar :: "char \<Rightarrow> char" where
  "toLowerChar c =
     (if isUpperCase c
      then (case c of Char b0 b1 b2 b3 b4 b5 b6 b7 \<Rightarrow> Char b0 b1 b2 b3 b4 True b6 b7)
      else c)"

definition toLowerCase :: "string \<Rightarrow> string" where
  "toLowerCase s = map toLowerChar s"

text \<open>Truthiness of a value that is a string or \<^verbatim>\<open>undefined\<close>.\<close>

definition truthy :: "string option \<Rightarrow> bool" where
  "truthy v = (case v of None \<Rightarrow> False | Some s \<Rightarrow> s \<noteq> [])"

text \<open>\<^verbatim>\<open>a || b\<close> on such values.\<close>

definition orElse :: "string option \<Rightarrow> string option \<Rightarrow> string option" where
  "orElse a b = (if truthy a then a else b)"

text \<open>\<^verbatim>\<open>String(v || '')\<close> on such values.\<close>

definition stringOrEmpty :: "string option \<Rightarrow> string" where
  "stringOrEmpty v = (case orElse v (Some []) of None \<Rightarrow> [] | Some s \<Rightarrow> s)"

text \<open>
  A thrown value: an \<^verbatim>\<open>Error\<close> object with its message, or a value that has no
  \<^verbatim>\<open>message\<close> property.
\<close>

datatype exn = Error string | Thrown

text \<open>\<^verbatim>\<open>e?.message || fallback\<close>.\<close>

definition messageOr :: "exn \<Rightarrow> string \<Rightarrow> string" where
  "messageOr e fallback =
     (case e of Error m \<Rightarrow> (if m \<noteq> [] then m else fallback) | Thrown \<Rightarrow> fallback)"


section \<open>The client module\<close>

text \<open>\<^verbatim>\<open>process.env\<close>: a variable is unset, or set to a string (possibly empty).\<close>

type_synonym environment = "string \<rightharpoonup> string"

definition missingEnvVar :: "string \<Rightarrow> exn" where
  "missingEnvVar name = Error (''Missing required env var: '' @ name)"

definition requireEnv :: "environment \<Rightarrow> string \<Rightarrow> exn + string" where
  "requireEnv env name =
     (case env name of
        None \<Rightarrow> Inl (missingEnvVar name)
      | Some v \<Rightarrow> if v = [] \<or> trim v = [] then Inl (missingEnvVar name) else Inr v)"

record auth_project_env =
  url :: "string option"
  anonKey :: "string option"
  serviceKey :: "string option"

definition getAuthProjectEnv :: "environment \<Rightarrow> auth_project_env" where
  "getAuthProjectEnv env =
     \<lparr> url = orElse (env ''ADMIN_AUTH_SUPABASE_URL'') (env ''SUPABASE_URL''),
       anonKey = orElse (env ''ADMIN_AUTH_SUPABASE_ANON_KEY'') (env ''SUPABASE_ANON_KEY''),
       serviceKey = orElse (env ''ADMIN_AUTH_SUPABASE_SERVICE_ROLE_KEY'')
                      (env ''SUPABASE_SERVICE_ROLE_KEY'') \<rparr>"

record data_project_env =
  dataUrl :: "string option"
  dataServiceKey :: "string option"

definition getCustomerProjectEnv :: "environment \<Rightarrow> data_project_env" where
  "getCustomerProjectEnv env =
     (let auth = getAuthProjectEnv env in
      \<lparr> dataUrl = orElse (env ''CUSTOMER_SUPABASE_URL'') (url auth),
        dataServiceKey = orElse (env ''CUSTOMER_SUPABASE_SERVICE_ROLE_KEY'') (serviceKey auth) \<rparr>)"

definition getVendorProjectEnv :: "environment \<Rightarrow> data_project_env" where
  "getVendorProjectEnv env =
     (let auth = getAuthProjectEnv env in
      \<lparr> dataUrl = orElse (env ''VENDOR_SUPABASE_URL'') (url auth),
        dataServiceKey = orElse (env ''VENDOR_SUPABASE_SERVICE_ROLE_KEY'') (serviceKey auth) \<rparr>)"

text \<open>
  \<^verbatim>\<open>requireEnvFromPair(name, value)\<close>: the first test reads the variable \<open>name\<close> itself,
  the second the value handed in.
\<close>

definition requireEnvFromPair :: "environment \<Rightarrow> string \<Rightarrow> string option \<Rightarrow> exn + string" where
  "requireEnvFromPair env name v =
     (if (case env name of None \<Rightarrow> False | Some s \<Rightarrow> trim s = [])
      then Inl (missingEnvVar name)
      else (case v of
              None \<Rightarrow> Inl (missingEnvVar name)
            | Some s \<Rightarrow> if s = [] \<or> trim s = [] then Inl (missingEnvVar name) else Inr s))"

text \<open>
  The handle that the library's \<^verbatim>\<open>createClient(url, key, options)\<close> builds, as the
  arguments it was given: endpoint, key, the global \<^verbatim>\<open>Authorization\<close> header if any,
  and the three \<^verbatim>\<open>auth\<close> options.
\<close>

record client =
  supabaseUrl :: string
  supabaseKey :: string
  authorization :: "string option"
  persistSession :: bool
  autoRefreshToken :: bool
  detectSessionInUrl :: bool

definition clientOf :: "string \<Rightarrow> string \<Rightarrow> string option \<Rightarrow> client" where
  "clientOf u k hdr =
     \<lparr> supabaseUrl = u, supabaseKey = k, authorization = hdr,
       persistSession = False, autoRefreshToken = False, detectSessionInUrl = False \<rparr>"

text \<open>
  The library's \<^verbatim>\<open>createClient\<close> throws when the endpoint, trimmed, does not begin with
  \<^verbatim>\<open>http://\<close> or \<^verbatim>\<open>https://\<close> in any letter case, and builds the handle otherwise.
  (Its refusal of an endpoint that begins so and still is no well-formed URL is left out.)
\<close>

definition isHttpUrl :: "string \<Rightarrow> bool" where
  "isHttpUrl u =
     (let t = toLowerCase (trim u) in take 7 t = ''http://'' \<or> take 8 t = ''https://'')"

definition createClient :: "string \<Rightarrow> string \<Rightarrow> string option \<Rightarrow> exn + client" where
  "createClient u k hdr =
     (if isHttpUrl u then Inr (clientOf u k hdr)
      else Inl (Error ''Invalid supabaseUrl: Must be a valid HTTP or HTTPS URL.''))"

definition createServiceClient :: "environment \<Rightarrow> exn + client" where
  "createServiceClient env =
     (case requireEnv env ''SUPABASE_URL'' of
        Inl e \<Rightarrow> Inl e
      | Inr u \<Rightarrow>
          (case requireEnv env ''SUPABASE_SERVICE_ROLE_KEY'' of
             Inl e \<Rightarrow> Inl e
           | Inr k \<Rightarrow> createClient u k None))"

text \<open>
  The three project clients evaluate both arguments of \<^verbatim>\<open>createClient\<close>, endpoint
  first, before the call.
\<close>

definition createAuthServiceClient :: "environment \<Rightarrow> exn + client" where
  "createAuthServiceClient env =
     (let p = getAuthProjectEnv env in
      case requireEnvFromPair env ''ADMIN_AUTH_SUPABASE_URL'' (url p) of
        Inl e \<Rightarrow> Inl e
      | Inr u \<Rightarrow>
          (case requireEnvFromPair env ''ADMIN_AUTH_SUPABASE_SERVICE_ROLE_KEY'' (serviceKey p) of
             Inl e \<Rightarrow> Inl e
           | Inr k \<Rightarrow> createClient u k None))"

definition createCustomerServiceClient :: "environment \<Rightarrow> exn + client" where
  "createCustomerServiceClient env =
     (let p = getCustomerProjectEnv env in
      case requireEnvFromPair env ''CUSTOMER_SUPABASE_URL'' (dataUrl p) of
        Inl e \<Rightarrow> Inl e
      | Inr u \<Rightarrow>
          (case requireEnvFromPair env ''CUSTOMER_SUPABASE_SERVICE_ROLE_KEY'' (dataServiceKey p) of
             Inl e \<Rightarrow> Inl e
           | Inr k \<Rightarrow> createClient u k None))"

definition createVendorServiceClient :: "environment \<Rightarrow> exn + client" where
  "createVendorServiceClient env =
     (let p = getVendorProjectEnv env in
      case requireEnvFromPair env ''VENDOR_SUPABASE_URL'' (dataUrl p) of
        Inl e \<Rightarrow> Inl e
      | Inr u \<Rightarrow>
          (case requireEnvFromPair env ''VENDOR_SUPABASE_SERVICE_ROLE_KEY'' (dataServiceKey p) of
             Inl e \<Rightarrow> Inl e
           | Inr k \<Rightarrow> createClient u k None))"

definition createAnonClientWithJwt :: "environment \<Rightarrow> string \<Rightarrow> exn + client" where
  "createAnonClientWithJwt env jwt =
     (let p = getAuthProjectEnv env in
      case requireEnvFromPair env ''ADMIN_AUTH_SUPABASE_URL'' (url p) of
        Inl e \<Rightarrow> Inl e
      | Inr resolvedUrl \<Rightarrow>
          (case requireEnvFromPair env ''ADMIN_AUTH_SUPABASE_ANON_KEY'' (anonKey p) of
             Inl e \<Rightarrow> Inl e
           | Inr resolvedAnon \<Rightarrow>
               createClient resolvedUrl resolvedAnon (Some (''Bearer '' @ jwt))))"


section \<open>The admin router: data\<close>

text \<open>
  A JavaScript number: \<^verbatim>\<open>NaN\<close>, the two infinities, or a finite value.
\<close>

datatype jsnum = NaN | PosInfinity | NegInfinity | Finite real

text \<open>\<^verbatim>\<open>Number.isFinite(n)\<close> and \<^verbatim>\<open>n <= 0\<close> (false when \<open>n\<close> is \<^verbatim>\<open>NaN\<close>).\<close>

definition isFinite :: "jsnum \<Rightarrow> bool" where
  "isFinite n = (case n of Finite _ \<Rightarrow> True | _ \<Rightarrow> False)"

definition leZero :: "jsnum \<Rightarrow> bool" where
  "leZero n = (case n of Finite v \<Rightarrow> v \<le> 0 | NegInfinity \<Rightarrow> True | _ \<Rightarrow> False)"

text \<open>
  The \<^verbatim>\<open>effective_from\<close> of a row as JavaScript sees it: a falsy value (\<^verbatim>\<open>null\<close>, absent or
  the empty string), a string that \<^verbatim>\<open>new Date\<close> reads as the time value \<open>t\<close> (milliseconds
  since the epoch), or a string that \<^verbatim>\<open>new Date\<close> cannot read (an invalid date).
\<close>

datatype stamp = NoStamp | Stamp int | BadStamp

text \<open>
  The \<^verbatim>\<open>effective_from\<close> of a row that the store holds to the microsecond, counted from
  the epoch: \<^verbatim>\<open>new Date\<close> keeps the whole milliseconds of the string sent for it and drops
  the finer digits, so that two timestamps of one millisecond read as the same time value.
\<close>

definition storedAt :: "int \<Rightarrow> stamp" where
  "storedAt micros = Stamp (micros div 1000)"

text \<open>
  \<^verbatim>\<open>x ? new Date(x) : new Date(0)\<close>, as the time value of the date; \<^term>\<open>None\<close> is the
  invalid date, whose time value is \<^verbatim>\<open>NaN\<close>.
\<close>

definition dateOrEpoch :: "stamp \<Rightarrow> int option" where
  "dateOrEpoch x = (case x of NoStamp \<Rightarrow> Some 0 | Stamp t \<Rightarrow> Some t | BadStamp \<Rightarrow> None)"

text \<open>\<^verbatim>\<open>a >= b\<close> on two dates: false as soon as one of them is invalid.\<close>

definition dateGe :: "int option \<Rightarrow> int option \<Rightarrow> bool" where
  "dateGe a b = (case a of None \<Rightarrow> False | Some s \<Rightarrow> (case b of None \<Rightarrow> False | Some t \<Rightarrow> s \<ge> t))"

text \<open>A row of the table \<^verbatim>\<open>scrap_rates\<close>, with the four columns the router uses.\<close>

record rate_row =
  scrap_type_id :: string
  rate_per_kg :: jsnum
  effective_from :: stamp
  is_active :: bool

text \<open>A row of the table \<^verbatim>\<open>vendor_backends\<close>, with the columns the router reads.\<close>

record vendor_row =
  vendor_id :: "string option"
  vendor_ref :: "string option"
  offer_url :: "string option"
  latitude :: "jsnum option"
  last_latitude :: "jsnum option"
  longitude :: "jsnum option"
  last_longitude :: "jsnum option"
  updated_at :: "string option"

record vendor_view =
  view_vendor_id :: "string option"
  view_vendor_ref :: "string option"
  view_offer_url :: "string option"
  view_latitude :: "jsnum option"
  view_longitude :: "jsnum option"
  view_updated_at :: "string option"

text \<open>\<^verbatim>\<open>a ?? b\<close>.\<close>

definition nullish :: "'a option \<Rightarrow> 'a option \<Rightarrow> 'a option" where
  "nullish a b = (case a of None \<Rightarrow> b | Some _ \<Rightarrow> a)"

record profile =
  role :: "string option"

record rate_view =
  viewScrapTypeId :: string
  viewRatePerKg :: jsnum
  viewEffectiveFrom :: stamp

text \<open>
  The JSON envelope of a response: \<^verbatim>\<open>{success: false, error}\<close>, or one of the
  successful payloads.
\<close>

datatype payload =
    Failure string
  | Me string
  | Vendors "vendor_view list"
  | Rate rate_view

record response =
  status :: nat
  body :: payload

text \<open>
  What the data service answers to one query: the \<^verbatim>\<open>{data, error}\<close> pair, the error by its
  message. The awaited call either returns such a pair or throws.
\<close>

record 'a result =
  resultError :: "string option"
  resultData :: "'a option"

datatype 'a reply = Returns 'a | Throws exn

text \<open>
  A failure of a writing query: the service rejects it (\<^verbatim>\<open>error\<close> is set), or the call
  throws. A failed write leaves the table as it was.
\<close>

datatype fault = Rejected string | Failed exn

text \<open>The calls a request makes on its collaborators, in the order they are made.\<close>

datatype call =
    GetBearerToken
  | AuthGetUser client
  | SelectProfileRole client string
  | SelectVendorBackends client
  | DeactivateRates client string
  | InsertRate client rate_row

text \<open>
  The collaborators of one request: the environment, the identity service, the data
  service and the clock. \<open>authGetUser\<close> answers \<^verbatim>\<open>anon.auth.getUser()\<close> with the value of
  \<^verbatim>\<open>data?.user?.id\<close> as its data; \<open>selectProfileRole\<close> answers the lookup of the profile
  by id; \<open>deactivateFault\<close> and \<open>insertFault\<close> say whether the two writes on
  \<^verbatim>\<open>scrap_rates\<close> fail; \<open>insertReturns\<close> is the row that the store sends back as the
  \<^verbatim>\<open>data\<close> of an insert, for the row it was given; \<open>now\<close> is the time value of
  \<^verbatim>\<open>new Date()\<close>.
\<close>

record externals =
  processEnv :: environment
  authGetUser :: "client \<Rightarrow> string result reply"
  selectProfileRole :: "client \<Rightarrow> string \<Rightarrow> profile result reply"
  selectVendorBackends :: "client \<Rightarrow> vendor_row list result reply"
  deactivateFault :: "fault option"
  insertFault :: "fault option"
  insertReturns :: "rate_row \<Rightarrow> rate_row"
  now :: int

text \<open>
  A value of the JSON body of a request as the handler finds it: absent, \<^verbatim>\<open>null\<close>, a
  boolean, a number, or a string, array or object. For the last three the number that
  \<^verbatim>\<open>Number\<close> reads from the value is part of the datum, since reading it needs the
  grammar of numeric literals.
\<close>

datatype body_value =
    Missing
  | JsonNull
  | JsonBool bool
  | JsonNumber jsnum
  | JsonOther jsnum

text \<open>\<^verbatim>\<open>Number(v)\<close> on such a value.\<close>

definition toNumber :: "body_value \<Rightarrow> jsnum" where
  "toNumber v =
     (case v of
        Missing \<Rightarrow> NaN
      | JsonNull \<Rightarrow> Finite 0
      | JsonBool b \<Rightarrow> (if b then Finite 1 else Finite 0)
      | JsonNumber n \<Rightarrow> n
      | JsonOther n \<Rightarrow> n)"

text \<open>
  The request, by what the router reads from it. \<open>bearerToken\<close> is the value that
  \<^verbatim>\<open>getBearerToken(req)\<close> returns: that helper belongs to the module
  \<^verbatim>\<open>supabase/auth\<close>, whose source is not at hand, so its result is taken as given.
  \<open>bodyScrapTypeId\<close> is \<^verbatim>\<open>req.body?.scrapTypeId\<close>, a string or absent, and
  \<open>bodyRatePerKg\<close> is \<^verbatim>\<open>req.body?.ratePerKg\<close>.
\<close>

record request =
  bearerToken :: "string option"
  bodyScrapTypeId :: "string option"
  bodyRatePerKg :: body_value


section \<open>The admin router: the admin check\<close>

definition isAdminPortalAllowed :: "environment \<Rightarrow> bool" where
  "isAdminPortalAllowed env =
     (let allowAdmin = (toLowerCase (stringOrEmpty (env ''ALLOW_ADMIN_PORTAL'')) = ''true'');
          allowDev = (toLowerCase (stringOrEmpty (env ''ALLOW_DEV_BYPASS'')) = ''true'')
      in allowAdmin \<or> allowDev)"

definition failure :: "nat \<Rightarrow> string \<Rightarrow> response" where
  "failure code msg = \<lparr> status = code, body = Failure msg \<rparr>"

text \<open>
  \<^verbatim>\<open>requireAdminEnabled\<close>: \<^term>\<open>None\<close> when it returns true, otherwise the response it
  has sent.
\<close>

definition portalDisabled :: string where
  "portalDisabled =
     ''Admin portal is disabled on server. Set ALLOW_ADMIN_PORTAL=true '' @
     ''(or ALLOW_DEV_BYPASS=true) in admin_backend/.env.''"

definition requireAdminEnabled :: "environment \<Rightarrow> response option" where
  "requireAdminEnabled env =
     (if isAdminPortalAllowed env then None else Some (failure 403 portalDisabled))"

text \<open>
  \<^verbatim>\<open>requireAdmin\<close>: the calls made, and either the response sent (the function then
  returns \<^verbatim>\<open>null\<close>) or the user id of the principal returned.
\<close>

definition requireAdmin :: "externals \<Rightarrow> request \<Rightarrow> call list \<times> (response + string)" where
  "requireAdmin x req =
     (case requireAdminEnabled (processEnv x) of
        Some denied \<Rightarrow> ([], Inl denied)
      | None \<Rightarrow>
         (let jwt = bearerToken req in
          if \<not> truthy jwt
          then ([GetBearerToken], Inl (failure 401 ''Missing Authorization: Bearer <token>''))
          else
           (case createAnonClientWithJwt (processEnv x) (stringOrEmpty jwt) of
              Inl e \<Rightarrow> ([GetBearerToken], Inl (failure 500 (messageOr e ''Auth check failed'')))
            | Inr anon \<Rightarrow>
               (case authGetUser x anon of
                  Throws e \<Rightarrow>
                    ([GetBearerToken, AuthGetUser anon],
                     Inl (failure 500 (messageOr e ''Auth check failed'')))
                | Returns got \<Rightarrow>
                   (if resultError got \<noteq> None
                    then ([GetBearerToken, AuthGetUser anon],
                          Inl (failure 401 ''Invalid or expired token''))
                    else
                     (let userId = orElse (resultData got) None in
                      if \<not> truthy userId
                      then ([GetBearerToken, AuthGetUser anon],
                            Inl (failure 401 ''Invalid or expired token''))
                      else
                       (case createServiceClient (processEnv x) of
                          Inl e \<Rightarrow>
                            ([GetBearerToken, AuthGetUser anon],
                             Inl (failure 500 (messageOr e ''Admin check failed'')))
                        | Inr supabase \<Rightarrow>
                           (case selectProfileRole x supabase (stringOrEmpty userId) of
                              Throws e \<Rightarrow>
                                ([GetBearerToken, AuthGetUser anon,
                                  SelectProfileRole supabase (stringOrEmpty userId)],
                                 Inl (failure 500 (messageOr e ''Admin check failed'')))
                            | Returns looked \<Rightarrow>
                               (case resultError looked of
                                  Some msg \<Rightarrow>
                                    ([GetBearerToken, AuthGetUser anon,
                                      SelectProfileRole supabase (stringOrEmpty userId)],
                                     Inl (failure 400 msg))
                                | None \<Rightarrow>
                                   (if toLowerCase
                                         (stringOrEmpty
                                            (case resultData looked of
                                               None \<Rightarrow> None | Some p \<Rightarrow> role p))
                                       \<noteq> ''admin''
                                    then ([GetBearerToken, AuthGetUser anon,
                                           SelectProfileRole supabase (stringOrEmpty userId)],
                                          Inl (failure 403 ''Admin access required''))
                                    else ([GetBearerToken, AuthGetUser anon,
                                           SelectProfileRole supabase (stringOrEmpty userId)],
                                          Inr (stringOrEmpty userId))))))))))))"



section \<open>The admin router: active rates\<close>

text \<open>
  The loop of \<^verbatim>\<open>getActiveRateByType\<close> over the rows received, with the map \<open>latest\<close>
  as it stands.
\<close>

fun latestByType :: "(string \<rightharpoonup> rate_row) \<Rightarrow> rate_row list \<Rightarrow> (string \<rightharpoonup> rate_row)" where
  "latestByType latest [] = latest"
| "latestByType latest (r # rs) =
     (case latest (scrap_type_id r) of
        None \<Rightarrow> latestByType (latest(scrap_type_id r \<mapsto> r)) rs
      | Some prev \<Rightarrow>
          (let prevDate = dateOrEpoch (effective_from prev);
               nextDate = dateOrEpoch (effective_from r)
           in if dateGe nextDate prevDate
              then latestByType (latest(scrap_type_id r \<mapsto> r)) rs
              else latestByType latest rs))"

text \<open>
  \<^verbatim>\<open>getActiveRateByType\<close> on the table: the query selects the rows whose
  \<^verbatim>\<open>is_active\<close> is true; a failed query is thrown.
\<close>

definition getActiveRateByType :: "fault option \<Rightarrow> rate_row list \<Rightarrow> exn + (string \<rightharpoonup> rate_row)" where
  "getActiveRateByType failing table =
     (case failing of
        Some (Failed e) \<Rightarrow> Inl e
      | Some (Rejected msg) \<Rightarrow> Inl (Error msg)
      | None \<Rightarrow> Inr (latestByType Map.empty (filter is_active table)))"


section \<open>The admin router: handlers\<close>

text \<open>\<^verbatim>\<open>GET /me\<close>.\<close>

definition getMe :: "externals \<Rightarrow> request \<Rightarrow> call list \<times> response" where
  "getMe x req =
     (case requireAdmin x req of
        (made, Inl sent) \<Rightarrow> (made, sent)
      | (made, Inr userId) \<Rightarrow> (made, \<lparr> status = 200, body = Me userId \<rparr>))"

definition vendorView :: "vendor_row \<Rightarrow> vendor_view" where
  "vendorView v =
     \<lparr> view_vendor_id = nullish (vendor_id v) None,
       view_vendor_ref = nullish (vendor_ref v) None,
       view_offer_url = nullish (offer_url v) None,
       view_latitude = nullish (nullish (latitude v) (last_latitude v)) None,
       view_longitude = nullish (nullish (longitude v) (last_longitude v)) None,
       view_updated_at = nullish (updated_at v) None \<rparr>"

text \<open>\<^verbatim>\<open>GET /vendors\<close>.\<close>

definition getVendors :: "externals \<Rightarrow> request \<Rightarrow> call list \<times> response" where
  "getVendors x req =
     (case requireAdmin x req of
        (made, Inl sent) \<Rightarrow> (made, sent)
      | (made, Inr userId) \<Rightarrow>
         (case createServiceClient (processEnv x) of
            Inl e \<Rightarrow> (made, failure 500 (messageOr e ''Admin request failed''))
          | Inr supabase \<Rightarrow>
             (case selectVendorBackends x supabase of
                Throws e \<Rightarrow>
                  (made @ [SelectVendorBackends supabase],
                   failure 500 (messageOr e ''Admin request failed''))
              | Returns got \<Rightarrow>
                 (case resultError got of
                    Some msg \<Rightarrow> (made @ [SelectVendorBackends supabase], failure 400 msg)
                  | None \<Rightarrow>
                     (made @ [SelectVendorBackends supabase],
                      \<lparr> status = 200,
                        body = Vendors (map vendorView
                                 (case resultData got of None \<Rightarrow> [] | Some vs \<Rightarrow> vs)) \<rparr>)))))"

text \<open>
  The first write of \<^verbatim>\<open>POST /scrap-rates\<close> on the table: every row of the commodity
  whose \<^verbatim>\<open>is_active\<close> is true gets \<^verbatim>\<open>is_active = false\<close>.
\<close>

definition deactivate :: "string \<Rightarrow> rate_row list \<Rightarrow> rate_row list" where
  "deactivate scrapTypeId table =
     map (\<lambda>r. if scrap_type_id r = scrapTypeId \<and> is_active r
              then r\<lparr> is_active := False \<rparr> else r) table"

text \<open>
  \<^verbatim>\<open>POST /scrap-rates\<close>, on the table \<^verbatim>\<open>scrap_rates\<close>: the calls made, the response and
  the table afterwards.
\<close>

definition postScrapRates ::
  "externals \<Rightarrow> request \<Rightarrow> rate_row list \<Rightarrow> call list \<times> response \<times> rate_row list" where
  "postScrapRates x req table =
     (case requireAdmin x req of
        (made, Inl sent) \<Rightarrow> (made, sent, table)
      | (made, Inr userId) \<Rightarrow>
         (let scrapTypeId = trim (stringOrEmpty (bodyScrapTypeId req));
              ratePerKg = toNumber (bodyRatePerKg req)
          in
          if scrapTypeId = [] then (made, failure 400 ''scrapTypeId is required'', table)
          else if \<not> isFinite ratePerKg \<or> leZero ratePerKg
          then (made, failure 400 ''ratePerKg must be a positive number'', table)
          else
           (case createServiceClient (processEnv x) of
              Inl e \<Rightarrow> (made, failure 500 (messageOr e ''Admin request failed''), table)
            | Inr supabase \<Rightarrow>
               (case deactivateFault x of
                  Some (Failed e) \<Rightarrow>
                    (made @ [DeactivateRates supabase scrapTypeId],
                     failure 500 (messageOr e ''Admin request failed''), table)
                | Some (Rejected msg) \<Rightarrow>
                    (made @ [DeactivateRates supabase scrapTypeId], failure 400 msg, table)
                | None \<Rightarrow>
                   (let row = \<lparr> scrap_type_id = scrapTypeId, rate_per_kg = ratePerKg,
                                effective_from = Stamp (now x), is_active = True \<rparr>
                    in
                    case insertFault x of
                      Some (Failed e) \<Rightarrow>
                        (made @ [DeactivateRates supabase scrapTypeId, InsertRate supabase row],
                         failure 500 (messageOr e ''Admin request failed''),
                         deactivate scrapTypeId table)
                    | Some (Rejected msg) \<Rightarrow>
                        (made @ [DeactivateRates supabase scrapTypeId, InsertRate supabase row],
                         failure 400 msg, deactivate scrapTypeId table)
                    | None \<Rightarrow>
                        (let data = insertReturns x row in
                         (made @ [DeactivateRates supabase scrapTypeId, InsertRate supabase row],
                          \<lparr> status = 201,
                            body = Rate \<lparr> viewScrapTypeId = scrap_type_id data,
                                          viewRatePerKg = rate_per_kg data,
                                          viewEffectiveFrom = effective_from data \<rparr> \<rparr>,
                          deactivate scrapTypeId table @ [row])))))))"


section \<open>The application\<close>

text \<open>
  The error handler that the application installs after the router: whatever the error
  that reaches it, it answers 500 with a fixed text (and writes the error to the log).
\<close>

definition unexpectedServerError :: "exn \<Rightarrow> response" where
  "unexpectedServerError err = failure 500 ''Internal Server Error''"


section \<open>The words of the specification\<close>

text \<open>A value is blank when nothing is left of it after trimming.\<close>

definition blank :: "string \<Rightarrow> bool" where
  "blank s = (trim s = [])"

text \<open>
  Two code units are the same up to letter case when they are equal or one is the
  upper-case form of the other, 32 below it.
\<close>

definition caseVariant :: "char \<Rightarrow> char \<Rightarrow> bool" where
  "caseVariant c d =
     (c = d \<or> (isUpperCase c \<and> (of_char d :: nat) = of_char c + 32)
            \<or> (isUpperCase d \<and> (of_char c :: nat) = of_char d + 32))"

text \<open>Two strings are equal up to letter case.\<close>

fun equalsIgnoreCase :: "string \<Rightarrow> string \<Rightarrow> bool" where
  "equalsIgnoreCase [] [] = True"
| "equalsIgnoreCase (c # cs) (d # ds) = (caseVariant c d \<and> equalsIgnoreCase cs ds)"
| "equalsIgnoreCase _ _ = False"

text \<open>
  The time a row counts for when every date is valid: its time value, and the epoch (time
  value 0) when it has none.
\<close>

definition timeOf :: "rate_row \<Rightarrow> int" where
  "timeOf r = (case effective_from r of Stamp t \<Rightarrow> t | _ \<Rightarrow> 0)"

text \<open>
  Of a list of rows in arrival order, the row with the latest time, and the last of them to
  arrive when several share it.
\<close>

definition latestArrival :: "rate_row list \<Rightarrow> rate_row option" where
  "latestArrival rs =
     (if rs = [] then None
      else Some (last (filter (\<lambda>r. list_all (\<lambda>q. timeOf q \<le> timeOf r) rs) rs)))"

text \<open>
  The same choice in the words of the claim, where a row without a date counts as earlier
  than every dated row: \<open>a\<close> is not later than \<open>b\<close>.
\<close>

definition notLaterAbsentEarliest :: "stamp \<Rightarrow> stamp \<Rightarrow> bool" where
  "notLaterAbsentEarliest a b =
     (case a of
        NoStamp \<Rightarrow> True
      | Stamp s \<Rightarrow> (case b of Stamp t \<Rightarrow> s \<le> t | _ \<Rightarrow> False)
      | BadStamp \<Rightarrow> False)"

definition latestArrivalAbsentEarliest :: "rate_row list \<Rightarrow> rate_row option" where
  "latestArrivalAbsentEarliest rs =
     (if rs = [] then None
      else Some (last (filter
             (\<lambda>r. list_all (\<lambda>q. notLaterAbsentEarliest (effective_from q) (effective_from r)) rs)
             rs)))"

text \<open>The rows of one commodity, and those of them that are active.\<close>

definition rowsOf :: "string \<Rightarrow> rate_row list \<Rightarrow> rate_row list" where
  "rowsOf c table = filter (\<lambda>r. scrap_type_id r = c) table"

definition activeRowsOf :: "string \<Rightarrow> rate_row list \<Rightarrow> rate_row list" where
  "activeRowsOf c table = filter (\<lambda>r. scrap_type_id r = c \<and> is_active r) table"


text \<open>
  The response of a catch clause of the admin check: the exception caught came from building the
  verifying client or from the identity service, or from building the service client or from
  the profile lookup, and the response is 500 with \<^verbatim>\<open>e?.message || fallback\<close>.
\<close>

definition adminCheckCaught :: "externals \<Rightarrow> request \<Rightarrow> response \<Rightarrow> bool" where
  "adminCheckCaught x req sent =
     ((\<exists>e. (createAnonClientWithJwt (processEnv x) (stringOrEmpty (bearerToken req)) = Inl e
             \<or> (\<exists>anon. authGetUser x anon = Throws e))
           \<and> sent = failure 500 (messageOr e ''Auth check failed''))
      \<or> (\<exists>e. (createServiceClient (processEnv x) = Inl e
             \<or> (\<exists>supabase userId. selectProfileRole x supabase userId = Throws e))
           \<and> sent = failure 500 (messageOr e ''Admin check failed'')))"

text \<open>A configuration value equals \<open>true\<close> up to letter case.\<close>

definition flagIsTrue :: "string option \<Rightarrow> bool" where
  "flagIsTrue v = (case v of None \<Rightarrow> False | Some s \<Rightarrow> equalsIgnoreCase s ''true'')"

text \<open>The stored role is \<open>admin\<close> up to letter case; an absent profile or role is not.\<close>

definition roleIsAdmin :: "profile option \<Rightarrow> bool" where
  "roleIsAdmin p =
     (case p of
        None \<Rightarrow> False
      | Some pr \<Rightarrow> (case role pr of None \<Rightarrow> False | Some s \<Rightarrow> equalsIgnoreCase s ''admin''))"

text \<open>A finite number strictly greater than 0.\<close>

definition finitePositive :: "jsnum \<Rightarrow> bool" where
  "finitePositive n = (case n of Finite v \<Rightarrow> 0 < v | _ \<Rightarrow> False)"


section \<open>Example configurations and requests\<close>

definition twoProjects :: environment where
  "twoProjects =
     [''ALLOW_ADMIN_PORTAL'' \<mapsto> ''true'',
      ''ADMIN_AUTH_SUPABASE_URL'' \<mapsto> ''https://auth.example'',
      ''ADMIN_AUTH_SUPABASE_ANON_KEY'' \<mapsto> ''anon-key'',
      ''SUPABASE_URL'' \<mapsto> ''https://data.example'',
      ''SUPABASE_SERVICE_ROLE_KEY'' \<mapsto> ''service-key'']"

text \<open>
  Collaborators that verify every token as user \<open>u1\<close>, store the given role for every
  profile, have no vendors, never fail, and send back an inserted row as it was given.
\<close>

definition healthy :: "environment \<Rightarrow> string option \<Rightarrow> externals" where
  "healthy env r =
     \<lparr> processEnv = env,
       authGetUser = (\<lambda>c. Returns \<lparr> resultError = None, resultData = Some ''u1'' \<rparr>),
       selectProfileRole =
         (\<lambda>c uid. Returns \<lparr> resultError = None, resultData = Some \<lparr> role = r \<rparr> \<rparr>),
       selectVendorBackends = (\<lambda>c. Returns \<lparr> resultError = None, resultData = Some [] \<rparr>),
       deactivateFault = None,
       insertFault = None,
       insertReturns = (\<lambda>row. row),
       now = 1700000000000 \<rparr>"

text \<open>A request with a token that sets a rate given as a number, or as any body value.\<close>

definition setRate :: "string \<Rightarrow> jsnum \<Rightarrow> request" where
  "setRate c n =
     \<lparr> bearerToken = Some ''token'', bodyScrapTypeId = Some c, bodyRatePerKg = JsonNumber n \<rparr>"


definition rateRow :: "string \<Rightarrow> jsnum \<Rightarrow> stamp \<Rightarrow> bool \<Rightarrow> rate_row" where
  "rateRow c n t a = \<lparr> scrap_type_id = c, rate_per_kg = n, effective_from = t, is_active = a \<rparr>"

text \<open>
  The same collaborators with the role \<open>admin\<close>, except that the vendor query and the
  insert of a rate throw an error with the given message.
\<close>

definition crashing :: "environment \<Rightarrow> string \<Rightarrow> externals" where
  "crashing env msg =
     (healthy env (Some ''admin''))
       \<lparr> selectVendorBackends := (\<lambda>c. Throws (Error msg)),
         insertFault := Some (Failed (Error msg)) \<rparr>"

definition anonymous :: request where
  "anonymous =
     \<lparr> bearerToken = None, bodyScrapTypeId = Some ''copper'',
       bodyRatePerKg = JsonNumber (Finite 5) \<rparr>"



section \<open>Strings: basic facts\<close>

lemma trim_Nil_iff: "trim s = [] \<longleftrightarrow> (\<forall>c \<in> set s. isWhiteSpace c)"
  unfolding trim_def by (induction s) auto

lemma trim_Nil [simp]: "trim [] = []"
  by (simp add: trim_def)

lemma blank_Nil: "blank []"
  by (simp add: blank_def)

lemma createClient_Inr:
  "createClient u k hdr = Inr c \<longleftrightarrow> isHttpUrl u \<and> c = clientOf u k hdr"
  by (auto simp: createClient_def)

lemma createClient_http:
  "isHttpUrl u \<Longrightarrow> createClient u k hdr = Inr (clientOf u k hdr)"
  by (simp add: createClient_def)

lemma example_endpoints:
  "isHttpUrl ''https://auth.example''" "isHttpUrl ''https://data.example''"
  by (simp_all add: isHttpUrl_def trim_def isWhiteSpace_def toLowerCase_def toLowerChar_def
        isUpperCase_def)


section \<open>Credential resolution\<close>

text \<open>
  C1, as the code has it. The value handed to \<^const>\<open>requireEnvFromPair\<close> is
  \<^verbatim>\<open>process.env[name] || fallback\<close>. A variable that is set and not blank is returned
  as it is. A variable that is unset gives way to a fallback that is not blank. When the
  variable is unset or blank and the fallback is absent or blank, resolution fails with the
  error naming the variable. A variable that is set but blank fails with that error whatever
  the fallback is: the fallback is used only when the variable is unset.
\<close>

theorem requireEnvFromPair_resolution:
  "(env name = Some v \<and> \<not> blank v \<longrightarrow>
      requireEnvFromPair env name (orElse (env name) fb) = Inr v)
   \<and> (env name = None \<and> fb = Some f \<and> \<not> blank f \<longrightarrow>
      requireEnvFromPair env name (orElse (env name) fb) = Inr f)
   \<and> ((env name = None \<or> (\<exists>s. env name = Some s \<and> blank s)) \<and>
      (fb = None \<or> (\<exists>s. fb = Some s \<and> blank s)) \<longrightarrow>
      requireEnvFromPair env name (orElse (env name) fb) = Inl (missingEnvVar name))
   \<and> (env name = Some v \<and> blank v \<longrightarrow>
      requireEnvFromPair env name (orElse (env name) fb) = Inl (missingEnvVar name))"
  by (auto simp: requireEnvFromPair_def orElse_def truthy_def blank_def
           split: option.splits)

theorem requireEnvFromPair_resolution_witness:
  "requireEnvFromPair [''ADMIN_AUTH_SUPABASE_URL'' \<mapsto> ''https://auth.example'']
       ''ADMIN_AUTH_SUPABASE_URL''
       (orElse ([''ADMIN_AUTH_SUPABASE_URL'' \<mapsto> ''https://auth.example'']
                  ''ADMIN_AUTH_SUPABASE_URL'')
          (Some ''https://old.example'')) = Inr ''https://auth.example''
   \<and> requireEnvFromPair Map.empty ''ADMIN_AUTH_SUPABASE_URL''
       (orElse (Map.empty ''ADMIN_AUTH_SUPABASE_URL'') (Some ''https://old.example''))
       = Inr ''https://old.example''
   \<and> requireEnvFromPair Map.empty ''ADMIN_AUTH_SUPABASE_URL''
       (orElse (Map.empty ''ADMIN_AUTH_SUPABASE_URL'') (Some '' ''))
       = Inl (missingEnvVar ''ADMIN_AUTH_SUPABASE_URL'')
   \<and> requireEnvFromPair [''ADMIN_AUTH_SUPABASE_URL'' \<mapsto> '' '']
       ''ADMIN_AUTH_SUPABASE_URL''
       (orElse ([''ADMIN_AUTH_SUPABASE_URL'' \<mapsto> '' ''] ''ADMIN_AUTH_SUPABASE_URL'')
          (Some ''https://old.example'')) = Inl (missingEnvVar ''ADMIN_AUTH_SUPABASE_URL'')"
proof -
  have nb1: "\<not> blank ''https://auth.example''" and nb2: "\<not> blank ''https://old.example''"
    and b: "blank '' ''"
    by (simp_all add: blank_def trim_def isWhiteSpace_def)
  show ?thesis
    using requireEnvFromPair_resolution
            [of "[''ADMIN_AUTH_SUPABASE_URL'' \<mapsto> ''https://auth.example'']"
                "''ADMIN_AUTH_SUPABASE_URL''" "''https://auth.example''"
                "Some ''https://old.example''" "[]"]
          requireEnvFromPair_resolution
            [of Map.empty "''ADMIN_AUTH_SUPABASE_URL''" "[]"
                "Some ''https://old.example''" "''https://old.example''"]
          requireEnvFromPair_resolution
            [of Map.empty "''ADMIN_AUTH_SUPABASE_URL''" "[]" "Some '' ''" "[]"]
          requireEnvFromPair_resolution
            [of "[''ADMIN_AUTH_SUPABASE_URL'' \<mapsto> '' '']" "''ADMIN_AUTH_SUPABASE_URL''" "'' ''"
                "Some ''https://old.example''" "[]"]
          nb1 nb2 b
    by simp
qed

text \<open>
  The explicit variable set to a single space and the legacy variable set to an endpoint:
  the explicit value is blank, the fallback is present and not blank, and resolution does
  not return the fallback but fails.
\<close>

theorem requireEnvFromPair_blank_explicit_counterexample:
  "blank '' '' \<and> \<not> blank ''https://old.example''
   \<and> url (getAuthProjectEnv [''ADMIN_AUTH_SUPABASE_URL'' \<mapsto> '' '',
                              ''SUPABASE_URL'' \<mapsto> ''https://old.example''])
       = Some '' ''
   \<and> requireEnvFromPair
         [''ADMIN_AUTH_SUPABASE_URL'' \<mapsto> '' '', ''SUPABASE_URL'' \<mapsto> ''https://old.example'']
         ''ADMIN_AUTH_SUPABASE_URL''
         (url (getAuthProjectEnv [''ADMIN_AUTH_SUPABASE_URL'' \<mapsto> '' '',
                                  ''SUPABASE_URL'' \<mapsto> ''https://old.example'']))
       = Inl (missingEnvVar ''ADMIN_AUTH_SUPABASE_URL'')
   \<and> Inl (missingEnvVar ''ADMIN_AUTH_SUPABASE_URL'') \<noteq> (Inr ''https://old.example'' :: exn + string)"
  by (simp add: getAuthProjectEnv_def requireEnvFromPair_def orElse_def truthy_def
        blank_def trim_def isWhiteSpace_def)

section \<open>Letter case\<close>

lemma of_char_toLowerChar:
  "isUpperCase c \<Longrightarrow> (of_char (toLowerChar c) :: nat) = of_char c + 32"
  by (cases c) (auto simp: toLowerChar_def isUpperCase_def Let_def of_bool_def split: if_splits)

lemma toLowerChar_lower:
  assumes "97 \<le> (of_char d :: nat)" and "(of_char d :: nat) \<le> 122"
  shows "toLowerChar c = d \<longleftrightarrow> caseVariant c d"
proof (cases "isUpperCase c")
  case True
  have nd: "\<not> isUpperCase d" using assms by (simp add: isUpperCase_def Let_def)
  have ne: "c \<noteq> d" using True nd by auto
  have "toLowerChar c = d \<longleftrightarrow> (of_char (toLowerChar c) :: nat) = of_char d"
    by (simp only: of_char_eq_iff)
  also have "\<dots> \<longleftrightarrow> (of_char d :: nat) = of_char c + 32"
    using of_char_toLowerChar [OF True] by auto
  also have "\<dots> \<longleftrightarrow> caseVariant c d"
    using True nd ne by (simp add: caseVariant_def)
  finally show ?thesis .
next
  case False
  have nd: "\<not> isUpperCase d" using assms by (simp add: isUpperCase_def Let_def)
  show ?thesis using False nd by (simp add: toLowerChar_def caseVariant_def)
qed

lemma toLowerCase_lower:
  "list_all (\<lambda>d. 97 \<le> (of_char d :: nat) \<and> (of_char d :: nat) \<le> 122) t \<Longrightarrow>
   toLowerCase s = t \<longleftrightarrow> equalsIgnoreCase s t"
  by (induction s t rule: equalsIgnoreCase.induct)
     (auto simp: toLowerCase_def toLowerChar_lower)

lemma toLowerCase_true: "toLowerCase s = ''true'' \<longleftrightarrow> equalsIgnoreCase s ''true''"
  by (rule toLowerCase_lower) simp

lemma toLowerCase_admin: "toLowerCase s = ''admin'' \<longleftrightarrow> equalsIgnoreCase s ''admin''"
  by (rule toLowerCase_lower) simp

lemma stringOrEmpty_Some [simp]: "stringOrEmpty (Some s) = s"
  by (simp add: stringOrEmpty_def orElse_def truthy_def)

lemma stringOrEmpty_None [simp]: "stringOrEmpty None = []"
  by (simp add: stringOrEmpty_def orElse_def truthy_def)

lemma flag_true: "toLowerCase (stringOrEmpty v) = ''true'' \<longleftrightarrow> flagIsTrue v"
  by (cases v) (simp_all add: flagIsTrue_def toLowerCase_true [symmetric] toLowerCase_def)

lemma role_admin:
  "toLowerCase (stringOrEmpty (case p of None \<Rightarrow> None | Some pr \<Rightarrow> role pr)) = ''admin''
   \<longleftrightarrow> roleIsAdmin p"
  by (simp add: roleIsAdmin_def toLowerCase_admin [symmetric] toLowerCase_def
        split: option.splits)


section \<open>The feature switch\<close>

text \<open>
  C9. The admin surface is enabled exactly when \<^verbatim>\<open>ALLOW_ADMIN_PORTAL\<close> or
  \<^verbatim>\<open>ALLOW_DEV_BYPASS\<close> is set to \<open>true\<close> in any letter case. In particular, with
  \<^verbatim>\<open>ALLOW_ADMIN_PORTAL\<close> unset, \<^verbatim>\<open>ALLOW_DEV_BYPASS\<close> alone enables it, and the admin check's
  first step lets the request through.
\<close>

theorem portal_allowed_iff_flag:
  "isAdminPortalAllowed env =
     (flagIsTrue (env ''ALLOW_ADMIN_PORTAL'') \<or> flagIsTrue (env ''ALLOW_DEV_BYPASS''))
   \<and> (env ''ALLOW_ADMIN_PORTAL'' = None \<and> flagIsTrue (env ''ALLOW_DEV_BYPASS'')
        \<longrightarrow> isAdminPortalAllowed env \<and> requireAdminEnabled env = None)"
  by (simp add: isAdminPortalAllowed_def flag_true requireAdminEnabled_def)

theorem portal_allowed_iff_flag_witness:
  "[''ALLOW_DEV_BYPASS'' \<mapsto> ''TRUE''] ''ALLOW_ADMIN_PORTAL'' = None
   \<and> flagIsTrue ([''ALLOW_DEV_BYPASS'' \<mapsto> ''TRUE''] ''ALLOW_DEV_BYPASS'')
   \<and> isAdminPortalAllowed [''ALLOW_DEV_BYPASS'' \<mapsto> ''TRUE'']
   \<and> requireAdminEnabled [''ALLOW_DEV_BYPASS'' \<mapsto> ''TRUE''] = None"
proof -
  have f: "flagIsTrue ([''ALLOW_DEV_BYPASS'' \<mapsto> ''TRUE''] ''ALLOW_DEV_BYPASS'')"
    by (simp add: flagIsTrue_def caseVariant_def isUpperCase_def)
  show ?thesis
    using portal_allowed_iff_flag [of "[''ALLOW_DEV_BYPASS'' \<mapsto> ''TRUE'']"] f by simp
qed

text \<open>
  C4. When the admin surface is not enabled, the admin check answers 403 and has made no call at
  all: it has not asked for the bearer token, verified no identity and queried no table.
  Every handler then answers with the admin check's response and leaves the table as it was.
\<close>

theorem disabled_portal_denies_at_once:
  assumes "\<not> isAdminPortalAllowed (processEnv x)"
  shows "requireAdmin x req = ([], Inl (failure 403 portalDisabled))
       \<and> getMe x req = ([], failure 403 portalDisabled)
       \<and> getVendors x req = ([], failure 403 portalDisabled)
       \<and> postScrapRates x req table = ([], failure 403 portalDisabled, table)"
proof -
  have g: "requireAdmin x req = ([], Inl (failure 403 portalDisabled))"
    using assms by (simp add: requireAdmin_def requireAdminEnabled_def)
  show ?thesis
    by (simp add: g getMe_def getVendors_def postScrapRates_def)
qed

lemma not_allowed_empty: "\<not> isAdminPortalAllowed Map.empty"
  by (simp add: isAdminPortalAllowed_def toLowerCase_def)

theorem disabled_portal_denies_at_once_witness:
  "\<not> isAdminPortalAllowed (processEnv (healthy Map.empty (Some ''admin'')))
   \<and> requireAdmin (healthy Map.empty (Some ''admin'')) (setRate ''copper'' (Finite 5))
       = ([], Inl (failure 403 portalDisabled))
   \<and> postScrapRates (healthy Map.empty (Some ''admin'')) (setRate ''copper'' (Finite 5)) []
       = ([], failure 403 portalDisabled, [])"
proof -
  have h: "\<not> isAdminPortalAllowed (processEnv (healthy Map.empty (Some ''admin'')))"
    by (simp add: healthy_def not_allowed_empty)
  show ?thesis
    using h disabled_portal_denies_at_once
              [OF h, of "setRate ''copper'' (Finite 5)" "[]"]
    by simp
qed


section \<open>The bearer token\<close>

text \<open>
  C5. When the admin surface is enabled and the request has no bearer token, the admin check
  answers 401 and the only call made is the one that asked for the token: no identity is
  verified and no table is queried. Every handler answers with that response.
\<close>

theorem missing_bearer_denied_before_any_call:
  assumes "isAdminPortalAllowed (processEnv x)" and "\<not> truthy (bearerToken req)"
  shows "requireAdmin x req =
           ([GetBearerToken], Inl (failure 401 ''Missing Authorization: Bearer <token>''))
       \<and> getMe x req = ([GetBearerToken], failure 401 ''Missing Authorization: Bearer <token>'')
       \<and> getVendors x req =
           ([GetBearerToken], failure 401 ''Missing Authorization: Bearer <token>'')
       \<and> postScrapRates x req table =
           ([GetBearerToken], failure 401 ''Missing Authorization: Bearer <token>'', table)"
proof -
  have g: "requireAdmin x req =
             ([GetBearerToken], Inl (failure 401 ''Missing Authorization: Bearer <token>''))"
    using assms by (simp add: requireAdmin_def requireAdminEnabled_def)
  show ?thesis
    by (simp add: g getMe_def getVendors_def postScrapRates_def)
qed

lemma twoProjects_allowed: "isAdminPortalAllowed twoProjects"
  by (simp add: isAdminPortalAllowed_def twoProjects_def toLowerCase_def toLowerChar_def
        isUpperCase_def)

lemma processEnv_healthy [simp]: "processEnv (healthy env r) = env"
  by (simp add: healthy_def)

theorem missing_bearer_denied_before_any_call_witness:
  "isAdminPortalAllowed (processEnv (healthy twoProjects (Some ''admin'')))
   \<and> \<not> truthy (bearerToken anonymous)
   \<and> requireAdmin (healthy twoProjects (Some ''admin'')) anonymous
       = ([GetBearerToken], Inl (failure 401 ''Missing Authorization: Bearer <token>''))
   \<and> postScrapRates (healthy twoProjects (Some ''admin'')) anonymous []
       = ([GetBearerToken], failure 401 ''Missing Authorization: Bearer <token>'', [])"
proof -
  have a: "isAdminPortalAllowed (processEnv (healthy twoProjects (Some ''admin'')))"
    by (simp add: twoProjects_allowed)
  have b: "\<not> truthy (bearerToken anonymous)"
    by (simp add: anonymous_def truthy_def)
  show ?thesis
    using a b missing_bearer_denied_before_any_call [OF a b, of "[]"] by simp
qed

section \<open>The role check\<close>

lemma requireAdmin_lookup:
  assumes "isAdminPortalAllowed (processEnv x)"
    and "bearerToken req = Some jwt" and "jwt \<noteq> []"
    and "createAnonClientWithJwt (processEnv x) jwt = Inr anon"
    and "authGetUser x anon = Returns got"
    and "resultError got = None" and "resultData got = Some uid" and "uid \<noteq> []"
    and "createServiceClient (processEnv x) = Inr supabase"
    and "selectProfileRole x supabase uid = Returns looked"
    and "resultError looked = None"
  shows "requireAdmin x req =
           ([GetBearerToken, AuthGetUser anon, SelectProfileRole supabase uid],
            if toLowerCase (stringOrEmpty (case resultData looked of
                                             None \<Rightarrow> None | Some p \<Rightarrow> role p)) \<noteq> ''admin''
            then Inl (failure 403 ''Admin access required'') else Inr uid)"
  using assms
  by (simp add: requireAdmin_def requireAdminEnabled_def truthy_def orElse_def)

lemma requireAdmin_admitted:
  assumes "requireAdmin x req = (made, Inr uid)"
  shows "isAdminPortalAllowed (processEnv x) \<and>
         (\<exists>jwt anon supabase.
            bearerToken req = Some jwt \<and> jwt \<noteq> [] \<and>
            createAnonClientWithJwt (processEnv x) jwt = Inr anon \<and>
            createServiceClient (processEnv x) = Inr supabase \<and>
            made = [GetBearerToken, AuthGetUser anon, SelectProfileRole supabase uid])"
  using assms
  by (auto simp: requireAdmin_def requireAdminEnabled_def truthy_def orElse_def Let_def
           split: option.splits sum.splits reply.splits if_splits)

lemma twoProjects_anon:
  "createAnonClientWithJwt twoProjects jwt =
     Inr (clientOf ''https://auth.example'' ''anon-key'' (Some (''Bearer '' @ jwt)))"
  by (simp add: createAnonClientWithJwt_def getAuthProjectEnv_def requireEnvFromPair_def
        twoProjects_def orElse_def truthy_def trim_def isWhiteSpace_def
        createClient_http example_endpoints)

lemma twoProjects_service:
  "createServiceClient twoProjects = Inr (clientOf ''https://data.example'' ''service-key'' None)"
  by (simp add: createServiceClient_def requireEnv_def twoProjects_def trim_def isWhiteSpace_def
        createClient_http example_endpoints)

text \<open>
  C6. Take a request whose token the identity service verifies as user \<open>uid\<close> and whose
  profile lookup returns without error. If the stored role is \<open>admin\<close> in any letter case
  the admin check returns the principal with that user id; in every other case, an absent profile
  and an absent role included, it answers 403 and returns no principal.
\<close>

theorem role_decides_admission:
  assumes "isAdminPortalAllowed (processEnv x)"
    and "bearerToken req = Some jwt" and "jwt \<noteq> []"
    and "createAnonClientWithJwt (processEnv x) jwt = Inr anon"
    and "authGetUser x anon = Returns got"
    and "resultError got = None" and "resultData got = Some uid" and "uid \<noteq> []"
    and "createServiceClient (processEnv x) = Inr supabase"
    and "selectProfileRole x supabase uid = Returns looked"
    and "resultError looked = None"
  shows "snd (requireAdmin x req) =
           (if roleIsAdmin (resultData looked) then Inr uid
            else Inl (failure 403 ''Admin access required''))"
  using requireAdmin_lookup [OF assms] role_admin [of "resultData looked"] by auto

lemma healthy_admits:
  assumes "bearerToken req = Some ''token''"
  shows "requireAdmin (healthy twoProjects (Some ''admin'')) req =
     ([GetBearerToken,
       AuthGetUser (clientOf ''https://auth.example'' ''anon-key'' (Some ''Bearer token'')),
       SelectProfileRole (clientOf ''https://data.example'' ''service-key'' None) ''u1''],
      Inr ''u1'')"
proof -
  have "requireAdmin (healthy twoProjects (Some ''admin'')) req =
     ([GetBearerToken,
       AuthGetUser (clientOf ''https://auth.example'' ''anon-key'' (Some (''Bearer '' @ ''token''))),
       SelectProfileRole (clientOf ''https://data.example'' ''service-key'' None) ''u1''],
      if toLowerCase (stringOrEmpty (case resultData \<lparr> resultError = None,
                        resultData = Some \<lparr> role = Some ''admin'' \<rparr> \<rparr> of
                                       None \<Rightarrow> None | Some p \<Rightarrow> role p)) \<noteq> ''admin''
      then Inl (failure 403 ''Admin access required'') else Inr ''u1'')"
    by (rule requireAdmin_lookup [where jwt = "''token''"
          and got = "\<lparr> resultError = None, resultData = Some ''u1'' \<rparr>"])
       (simp_all add: twoProjects_allowed twoProjects_anon twoProjects_service
          assms healthy_def)
  then show ?thesis
    by (simp add: toLowerCase_def toLowerChar_def isUpperCase_def)
qed

lemma healthy_admitted:
  "requireAdmin (healthy twoProjects (Some ''admin'')) (setRate c n) =
     ([GetBearerToken,
       AuthGetUser (clientOf ''https://auth.example'' ''anon-key'' (Some ''Bearer token'')),
       SelectProfileRole (clientOf ''https://data.example'' ''service-key'' None) ''u1''],
      Inr ''u1'')"
  by (rule healthy_admits) (simp add: setRate_def)

theorem role_decides_admission_witness:
  "snd (requireAdmin (healthy twoProjects (Some ''Admin'')) (setRate ''copper'' (Finite 5)))
     = Inr ''u1''
   \<and> snd (requireAdmin (healthy twoProjects (Some ''admin '')) (setRate ''copper'' (Finite 5)))
     = Inl (failure 403 ''Admin access required'')
   \<and> snd (requireAdmin (healthy twoProjects None) (setRate ''copper'' (Finite 5)))
     = Inl (failure 403 ''Admin access required'')"
proof -
  have yes: "roleIsAdmin (Some \<lparr> role = Some ''Admin'' \<rparr>)"
    and no: "\<not> roleIsAdmin (Some \<lparr> role = Some ''admin '' \<rparr>)"
    and absent: "\<not> roleIsAdmin (Some \<lparr> role = None \<rparr>)"
    by (simp_all add: roleIsAdmin_def caseVariant_def isUpperCase_def)
  have "snd (requireAdmin (healthy twoProjects r) (setRate ''copper'' (Finite 5))) =
          (if roleIsAdmin (resultData \<lparr> resultError = None, resultData = Some \<lparr> role = r \<rparr> \<rparr>)
           then Inr ''u1'' else Inl (failure 403 ''Admin access required''))" for r
    by (rule role_decides_admission [where jwt = "''token''"
          and got = "\<lparr> resultError = None, resultData = Some ''u1'' \<rparr>"])
       (simp_all add: twoProjects_allowed twoProjects_anon twoProjects_service
          setRate_def healthy_def)
  then show ?thesis
    using yes no absent by simp
qed

section \<open>Which project serves which step\<close>

lemma requireEnv_Inr: "requireEnv env name = Inr v \<Longrightarrow> env name = Some v"
  by (auto simp: requireEnv_def split: option.splits if_splits)

lemma createServiceClient_Inr:
  "createServiceClient env = Inr sb \<Longrightarrow>
   env ''SUPABASE_URL'' = Some (supabaseUrl sb) \<and>
   env ''SUPABASE_SERVICE_ROLE_KEY'' = Some (supabaseKey sb) \<and> authorization sb = None"
  by (auto simp: createServiceClient_def createClient_Inr clientOf_def split: sum.splits
           dest: requireEnv_Inr)

lemma createAnonClientWithJwt_Inr:
  assumes "createAnonClientWithJwt env jwt = Inr anon"
    and "env ''ADMIN_AUTH_SUPABASE_URL'' = Some a" and "\<not> blank a"
  shows "supabaseUrl anon = a \<and> authorization anon = Some (''Bearer '' @ jwt)"
proof -
  have a: "a \<noteq> []" using assms(3) by (auto simp: blank_def)
  show ?thesis
    using assms a
    by (auto simp: createAnonClientWithJwt_def getAuthProjectEnv_def requireEnvFromPair_def
          createClient_Inr clientOf_def orElse_def truthy_def blank_def Let_def
          split: sum.splits if_splits)
qed

text \<open>
  C10. The service client reads two variables only, \<^verbatim>\<open>SUPABASE_URL\<close> and
  \<^verbatim>\<open>SUPABASE_SERVICE_ROLE_KEY\<close>: two environments that agree on them give the same client,
  whatever the \<^verbatim>\<open>ADMIN_AUTH_*\<close> variables are, and the client built has exactly those two
  values. The client that verifies the token has the endpoint \<^verbatim>\<open>ADMIN_AUTH_SUPABASE_URL\<close>
  when that is set and not blank. So, with both sets configured, a request the admin check admits
  has had its token verified at the \<^verbatim>\<open>ADMIN_AUTH_SUPABASE_URL\<close> endpoint and its role
  looked up at the \<^verbatim>\<open>SUPABASE_URL\<close> endpoint: two projects whenever the two endpoints
  differ.
\<close>

theorem role_lookup_uses_legacy_project:
  "(env1 ''SUPABASE_URL'' = env2 ''SUPABASE_URL'' \<and>
    env1 ''SUPABASE_SERVICE_ROLE_KEY'' = env2 ''SUPABASE_SERVICE_ROLE_KEY''
      \<longrightarrow> createServiceClient env1 = createServiceClient env2)
   \<and> (createServiceClient env = Inr sb
      \<longrightarrow> env ''SUPABASE_URL'' = Some (supabaseUrl sb) \<and>
          env ''SUPABASE_SERVICE_ROLE_KEY'' = Some (supabaseKey sb))
   \<and> (createAnonClientWithJwt env jwt = Inr anon \<and>
      env ''ADMIN_AUTH_SUPABASE_URL'' = Some a \<and> \<not> blank a
      \<longrightarrow> supabaseUrl anon = a)
   \<and> (requireAdmin x req = (made, Inr uid) \<and>
      processEnv x ''ADMIN_AUTH_SUPABASE_URL'' = Some a \<and> \<not> blank a \<and>
      processEnv x ''SUPABASE_URL'' = Some s
      \<longrightarrow> (\<exists>verifier lookup.
            made = [GetBearerToken, AuthGetUser verifier, SelectProfileRole lookup uid] \<and>
            supabaseUrl verifier = a \<and> supabaseUrl lookup = s \<and>
            (a \<noteq> s \<longrightarrow> supabaseUrl lookup \<noteq> supabaseUrl verifier)))"
proof (intro conjI impI)
  assume "env1 ''SUPABASE_URL'' = env2 ''SUPABASE_URL'' \<and>
    env1 ''SUPABASE_SERVICE_ROLE_KEY'' = env2 ''SUPABASE_SERVICE_ROLE_KEY''"
  then have "requireEnv env1 ''SUPABASE_URL'' = requireEnv env2 ''SUPABASE_URL''"
    and "requireEnv env1 ''SUPABASE_SERVICE_ROLE_KEY'' = requireEnv env2 ''SUPABASE_SERVICE_ROLE_KEY''"
    by (simp_all add: requireEnv_def)
  then show "createServiceClient env1 = createServiceClient env2"
    by (simp only: createServiceClient_def)
next
  assume "createServiceClient env = Inr sb"
  then show "env ''SUPABASE_URL'' = Some (supabaseUrl sb)"
    and "env ''SUPABASE_SERVICE_ROLE_KEY'' = Some (supabaseKey sb)"
    by (simp_all add: createServiceClient_Inr)
next
  assume "createAnonClientWithJwt env jwt = Inr anon \<and>
      env ''ADMIN_AUTH_SUPABASE_URL'' = Some a \<and> \<not> blank a"
  then show "supabaseUrl anon = a"
    using createAnonClientWithJwt_Inr by blast
next
  assume h: "requireAdmin x req = (made, Inr uid) \<and>
      processEnv x ''ADMIN_AUTH_SUPABASE_URL'' = Some a \<and> \<not> blank a \<and>
      processEnv x ''SUPABASE_URL'' = Some s"
  then obtain jwt verifier lookup where
    v: "createAnonClientWithJwt (processEnv x) jwt = Inr verifier"
    and l: "createServiceClient (processEnv x) = Inr lookup"
    and m: "made = [GetBearerToken, AuthGetUser verifier, SelectProfileRole lookup uid]"
    using requireAdmin_admitted [of x req made uid] by blast
  have "supabaseUrl verifier = a"
    using createAnonClientWithJwt_Inr [OF v] h by blast
  moreover have "supabaseUrl lookup = s"
    using createServiceClient_Inr [OF l] h by simp
  ultimately show "\<exists>verifier lookup.
            made = [GetBearerToken, AuthGetUser verifier, SelectProfileRole lookup uid] \<and>
            supabaseUrl verifier = a \<and> supabaseUrl lookup = s \<and>
            (a \<noteq> s \<longrightarrow> supabaseUrl lookup \<noteq> supabaseUrl verifier)"
    using m by auto
qed

theorem role_lookup_uses_legacy_project_witness:
  "createServiceClient twoProjects
     = createServiceClient (twoProjects(''ADMIN_AUTH_SUPABASE_URL'' \<mapsto> ''https://other.example''))
   \<and> twoProjects ''SUPABASE_URL''
     = Some (supabaseUrl (clientOf ''https://data.example'' ''service-key'' None))
   \<and> supabaseUrl (clientOf ''https://auth.example'' ''anon-key'' (Some (''Bearer '' @ ''token'')))
     = ''https://auth.example''
   \<and> (\<exists>verifier lookup.
        fst (requireAdmin (healthy twoProjects (Some ''admin'')) (setRate ''copper'' (Finite 5)))
          = [GetBearerToken, AuthGetUser verifier, SelectProfileRole lookup ''u1''] \<and>
        supabaseUrl verifier = ''https://auth.example'' \<and>
        supabaseUrl lookup = ''https://data.example'' \<and>
        supabaseUrl lookup \<noteq> supabaseUrl verifier)"
proof -
  have nb: "\<not> blank ''https://auth.example''"
    by (simp add: blank_def trim_def isWhiteSpace_def)
  have vars: "twoProjects ''ADMIN_AUTH_SUPABASE_URL'' = Some ''https://auth.example''"
    "twoProjects ''SUPABASE_URL'' = Some ''https://data.example''"
    "twoProjects ''SUPABASE_SERVICE_ROLE_KEY'' = Some ''service-key''"
    by (simp_all add: twoProjects_def)
  note t = role_lookup_uses_legacy_project
    [of twoProjects "twoProjects(''ADMIN_AUTH_SUPABASE_URL'' \<mapsto> ''https://other.example'')"
        twoProjects "clientOf ''https://data.example'' ''service-key'' None"
        "''token''"
        "clientOf ''https://auth.example'' ''anon-key'' (Some (''Bearer '' @ ''token''))"
        "''https://auth.example''"
        "healthy twoProjects (Some ''admin'')" "setRate ''copper'' (Finite 5)"
        "fst (requireAdmin (healthy twoProjects (Some ''admin'')) (setRate ''copper'' (Finite 5)))"
        "''u1''" "''https://data.example''"]
  show ?thesis
    using t nb vars twoProjects_anon [of "''token''"] twoProjects_service
      healthy_admitted [of "''copper''" "Finite 5"]
    by simp
qed

section \<open>Setting a rate\<close>

lemma not_finitePositive: "(\<not> isFinite n \<or> leZero n) \<longleftrightarrow> \<not> finitePositive n"
  by (cases n) (auto simp: isFinite_def leZero_def finitePositive_def)



lemma healthy_sets_rate:
  assumes "bearerToken req = Some ''token''" and "bodyScrapTypeId req = Some c"
    and "trim c \<noteq> []" and "finitePositive (toNumber (bodyRatePerKg req))"
  shows "postScrapRates (healthy twoProjects (Some ''admin'')) req table =
     ([GetBearerToken,
       AuthGetUser (clientOf ''https://auth.example'' ''anon-key'' (Some ''Bearer token'')),
       SelectProfileRole (clientOf ''https://data.example'' ''service-key'' None) ''u1'',
       DeactivateRates (clientOf ''https://data.example'' ''service-key'' None) (trim c),
       InsertRate (clientOf ''https://data.example'' ''service-key'' None)
         (rateRow (trim c) (toNumber (bodyRatePerKg req)) (Stamp 1700000000000) True)],
      \<lparr> status = 201,
        body = Rate \<lparr> viewScrapTypeId = trim c, viewRatePerKg = toNumber (bodyRatePerKg req),
                      viewEffectiveFrom = Stamp 1700000000000 \<rparr> \<rparr>,
      deactivate (trim c) table @
        [rateRow (trim c) (toNumber (bodyRatePerKg req)) (Stamp 1700000000000) True])"
proof -
  have ext: "deactivateFault (healthy twoProjects (Some ''admin'')) = None"
    "insertFault (healthy twoProjects (Some ''admin'')) = None"
    "insertReturns (healthy twoProjects (Some ''admin'')) = (\<lambda>row. row)"
    "now (healthy twoProjects (Some ''admin'')) = 1700000000000"
    by (simp_all add: healthy_def)
  show ?thesis
    using assms(3,4) not_finitePositive [of "toNumber (bodyRatePerKg req)"]
    by (simp add: postScrapRates_def healthy_admits [OF assms(1)] twoProjects_service
          assms(2) ext rateRow_def Let_def)
qed




lemma requireAdmin_denied_status:
  assumes "requireAdmin x req = (made, Inl sent)"
  shows "status sent \<in> {400, 401, 403, 500}"
  using assms
  by (auto simp: requireAdmin_def requireAdminEnabled_def failure_def Let_def
           split: option.splits sum.splits reply.splits if_splits)

lemma postScrapRates_created:
  assumes "postScrapRates x req table = (made, sent, table')" and "status sent = 201"
  shows "\<exists>checked supabase.
           made = checked @
             [DeactivateRates supabase (trim (stringOrEmpty (bodyScrapTypeId req))),
              InsertRate supabase
                \<lparr> scrap_type_id = trim (stringOrEmpty (bodyScrapTypeId req)),
                  rate_per_kg = toNumber (bodyRatePerKg req),
                  effective_from = Stamp (now x), is_active = True \<rparr>] \<and>
           table' = deactivate (trim (stringOrEmpty (bodyScrapTypeId req))) table @
             [\<lparr> scrap_type_id = trim (stringOrEmpty (bodyScrapTypeId req)),
                rate_per_kg = toNumber (bodyRatePerKg req),
                effective_from = Stamp (now x), is_active = True \<rparr>]"
proof (cases "requireAdmin x req")
  case (Pair checked outcome)
  show ?thesis
  proof (cases outcome)
    case (Inl denied)
    then have "status sent \<in> {400, 401, 403, 500}"
      using assms(1) Pair requireAdmin_denied_status [of x req checked denied]
      by (simp add: postScrapRates_def)
    then show ?thesis using assms(2) by simp
  next
    case (Inr userId)
    then show ?thesis
      using assms Pair
      by (auto simp: postScrapRates_def failure_def Let_def
               split: sum.splits option.splits fault.splits if_splits)
  qed
qed

lemma activeRowsOf_deactivate: "activeRowsOf c (deactivate c table) = []"
  by (induction table) (auto simp: activeRowsOf_def deactivate_def)

lemma activeRowsOf_append:
  "activeRowsOf c (table @ extra) = activeRowsOf c table @ activeRowsOf c extra"
  by (simp add: activeRowsOf_def)

lemma deactivate_append:
  "deactivate c (table @ extra) = deactivate c table @ deactivate c extra"
  by (simp add: deactivate_def)

text \<open>
  C2. Two requests that set a rate for the same commodity, served one after the other and
  both answered 201. Each of them first marks the active rows of the commodity inactive and
  then inserts one row that is active, in that order. After the first, its new row is the
  only active row of the commodity; after the second, the only active row of the commodity
  is the second new row, and the first new row is still in the table, inactive.
\<close>

theorem two_successive_rates_leave_one_active:
  assumes "postScrapRates x1 req1 table = (made1, sent1, table1)" and "status sent1 = 201"
    and "postScrapRates x2 req2 table1 = (made2, sent2, table2)" and "status sent2 = 201"
    and "trim (stringOrEmpty (bodyScrapTypeId req1)) = c"
    and "trim (stringOrEmpty (bodyScrapTypeId req2)) = c"
    and "new1 = \<lparr> scrap_type_id = c, rate_per_kg = toNumber (bodyRatePerKg req1),
                   effective_from = Stamp (now x1), is_active = True \<rparr>"
    and "new2 = \<lparr> scrap_type_id = c, rate_per_kg = toNumber (bodyRatePerKg req2),
                   effective_from = Stamp (now x2), is_active = True \<rparr>"
  shows "(\<exists>checked supabase. made1 = checked @ [DeactivateRates supabase c, InsertRate supabase new1])
       \<and> (\<exists>checked supabase. made2 = checked @ [DeactivateRates supabase c, InsertRate supabase new2])
       \<and> table1 = deactivate c table @ [new1]
       \<and> activeRowsOf c table1 = [new1]
       \<and> table2 = deactivate c table @ [new1\<lparr> is_active := False \<rparr>, new2]
       \<and> activeRowsOf c table2 = [new2]
       \<and> length (activeRowsOf c table2) = 1"
proof -
  from postScrapRates_created [OF assms(1,2)] assms(5,7)
  have m1: "\<exists>checked supabase. made1 = checked @ [DeactivateRates supabase c, InsertRate supabase new1]"
    and t1: "table1 = deactivate c table @ [new1]"
    by auto
  from postScrapRates_created [OF assms(3,4)] assms(6,8)
  have m2: "\<exists>checked supabase. made2 = checked @ [DeactivateRates supabase c, InsertRate supabase new2]"
    and t2: "table2 = deactivate c table1 @ [new2]"
    by auto
  have n1: "scrap_type_id new1 = c" "is_active new1" and n2: "scrap_type_id new2 = c" "is_active new2"
    using assms(7,8) by simp_all
  have a1: "activeRowsOf c table1 = [new1]"
    using n1 by (simp add: t1 activeRowsOf_append activeRowsOf_deactivate) (simp add: activeRowsOf_def)
  have dd: "deactivate c (deactivate c table) = deactivate c table"
    by (induction table) (auto simp: deactivate_def)
  have t2': "table2 = deactivate c table @ [new1\<lparr> is_active := False \<rparr>, new2]"
    using n1 by (simp add: t2 t1 deactivate_append dd) (simp add: deactivate_def)
  have a2: "activeRowsOf c table2 = [new2]"
    using n2 by (simp add: t2 activeRowsOf_append activeRowsOf_deactivate) (simp add: activeRowsOf_def)
  show ?thesis
    using m1 m2 t1 a1 t2' a2 by simp
qed

theorem two_successive_rates_leave_one_active_witness:
  "activeRowsOf ''copper''
     (snd (snd (postScrapRates (healthy twoProjects (Some ''admin'')) (setRate ''copper'' (Finite 6))
        (snd (snd (postScrapRates (healthy twoProjects (Some ''admin''))
                     (setRate '' copper'' (Finite 5))
                     [rateRow ''copper'' (Finite 4) (Stamp 1600000000000) True,
                      rateRow ''iron'' (Finite 2) (Stamp 1600000000000) True]))))))
     = [rateRow ''copper'' (Finite 6) (Stamp 1700000000000) True]
   \<and> snd (snd (postScrapRates (healthy twoProjects (Some ''admin'')) (setRate ''copper'' (Finite 6))
        (snd (snd (postScrapRates (healthy twoProjects (Some ''admin''))
                     (setRate '' copper'' (Finite 5))
                     [rateRow ''copper'' (Finite 4) (Stamp 1600000000000) True,
                      rateRow ''iron'' (Finite 2) (Stamp 1600000000000) True])))))
     = [rateRow ''copper'' (Finite 4) (Stamp 1600000000000) False,
        rateRow ''iron'' (Finite 2) (Stamp 1600000000000) True,
        rateRow ''copper'' (Finite 5) (Stamp 1700000000000) False,
        rateRow ''copper'' (Finite 6) (Stamp 1700000000000) True]"
proof -
  let ?x = "healthy twoProjects (Some ''admin'')"
  let ?table = "[rateRow ''copper'' (Finite 4) (Stamp 1600000000000) True,
                 rateRow ''iron'' (Finite 2) (Stamp 1600000000000) True]"
  have tr: "trim '' copper'' = ''copper''" "trim ''copper'' = ''copper''"
    by (simp_all add: trim_def isWhiteSpace_def)
  have fp: "finitePositive (Finite 5)" "finitePositive (Finite 6)"
    by (simp_all add: finitePositive_def)
  obtain made1 sent1 table1 where
    p1: "postScrapRates ?x (setRate '' copper'' (Finite 5)) ?table = (made1, sent1, table1)"
    by (metis prod_cases3)
  obtain made2 sent2 table2 where
    p2: "postScrapRates ?x (setRate ''copper'' (Finite 6)) table1 = (made2, sent2, table2)"
    by (metis prod_cases3)
  have rq: "bearerToken (setRate c n) = Some ''token''"
    "bodyScrapTypeId (setRate c n) = Some c" "toNumber (bodyRatePerKg (setRate c n)) = n" for c n
    by (simp_all add: setRate_def toNumber_def)
  have s1: "status sent1 = 201"
    using p1 healthy_sets_rate [of "setRate '' copper'' (Finite 5)" "'' copper''" ?table]
      tr fp rq
    by auto
  have s2: "status sent2 = 201"
    using p2 healthy_sets_rate [of "setRate ''copper'' (Finite 6)" "''copper''" table1]
      tr fp rq
    by auto
  have c1: "trim (stringOrEmpty (bodyScrapTypeId (setRate '' copper'' (Finite 5)))) = ''copper''"
    and c2: "trim (stringOrEmpty (bodyScrapTypeId (setRate ''copper'' (Finite 6)))) = ''copper''"
    using tr by (simp_all add: setRate_def)
  note t = two_successive_rates_leave_one_active [OF p1 s1 p2 s2 c1 c2 refl refl]
  have r: "toNumber (bodyRatePerKg (setRate c n)) = n" for c n
    by (simp add: setRate_def toNumber_def)
  have "now ?x = 1700000000000"
    by (simp add: healthy_def)
  then show ?thesis
    using t p1 p2
    by (simp add: r rateRow_def deactivate_def activeRowsOf_def)
qed

section \<open>The active rate of a commodity\<close>

lemma latest_exists:
  "rs \<noteq> [] \<Longrightarrow> \<exists>r \<in> set rs. \<forall>q \<in> set rs. timeOf q \<le> timeOf r"
proof (induction rs)
  case Nil
  then show ?case by simp
next
  case (Cons a rs)
  show ?case
  proof (cases "rs = []")
    case True
    then show ?thesis by simp
  next
    case False
    then obtain r where r: "r \<in> set rs" "\<forall>q \<in> set rs. timeOf q \<le> timeOf r"
      using Cons.IH by blast
    show ?thesis
    proof (cases "timeOf a \<le> timeOf r")
      case True
      then show ?thesis using r by auto
    next
      case False
      then have "\<forall>q \<in> set (a # rs). timeOf q \<le> timeOf a"
        using r by fastforce
      then show ?thesis by auto
    qed
  qed
qed

lemma latest_filter_nonempty:
  "rs \<noteq> [] \<Longrightarrow> filter (\<lambda>r. list_all (\<lambda>q. timeOf q \<le> timeOf r) rs) rs \<noteq> []"
  using latest_exists [of rs] by (auto simp: filter_empty_conv list_all_iff)

lemma latestArrival_later_or_equal:
  assumes "timeOf p \<le> timeOf r"
  shows "latestArrival (p # r # rs) = latestArrival (r # rs)"
proof -
  have same: "filter (\<lambda>y. list_all (\<lambda>q. timeOf q \<le> timeOf y) (p # r # rs)) (r # rs)
            = filter (\<lambda>y. list_all (\<lambda>q. timeOf q \<le> timeOf y) (r # rs)) (r # rs)"
    using assms by (intro filter_cong refl) (auto simp: list_all_iff)
  have ne: "filter (\<lambda>y. list_all (\<lambda>q. timeOf q \<le> timeOf y) (r # rs)) (r # rs) \<noteq> []"
    by (rule latest_filter_nonempty) simp
  have "filter (\<lambda>y. list_all (\<lambda>q. timeOf q \<le> timeOf y) (p # r # rs)) (p # r # rs)
      = (if list_all (\<lambda>q. timeOf q \<le> timeOf p) (p # r # rs) then [p] else [])
        @ filter (\<lambda>y. list_all (\<lambda>q. timeOf q \<le> timeOf y) (r # rs)) (r # rs)"
    using same by simp
  then have "last (filter (\<lambda>y. list_all (\<lambda>q. timeOf q \<le> timeOf y) (p # r # rs)) (p # r # rs))
      = last (filter (\<lambda>y. list_all (\<lambda>q. timeOf q \<le> timeOf y) (r # rs)) (r # rs))"
    using ne by (simp only: last_append if_False)
  then show ?thesis
    by (simp only: latestArrival_def list.distinct if_False)
qed

lemma latestArrival_earlier:
  assumes "timeOf r < timeOf p"
  shows "latestArrival (p # r # rs) = latestArrival (p # rs)"
proof -
  have "filter (\<lambda>y. list_all (\<lambda>q. timeOf q \<le> timeOf y) (p # r # rs)) (p # r # rs)
      = filter (\<lambda>y. list_all (\<lambda>q. timeOf q \<le> timeOf y) (p # r # rs)) (p # rs)"
    using assms by simp
  also have "\<dots> = filter (\<lambda>y. list_all (\<lambda>q. timeOf q \<le> timeOf y) (p # rs)) (p # rs)"
    using assms by (intro filter_cong refl) (auto simp: list_all_iff)
  finally show ?thesis
    by (simp only: latestArrival_def list.distinct if_False)
qed

lemma dateGe_timeOf:
  assumes "effective_from p \<noteq> BadStamp" and "effective_from r \<noteq> BadStamp"
  shows "dateGe (dateOrEpoch (effective_from r)) (dateOrEpoch (effective_from p))
         \<longleftrightarrow> timeOf p \<le> timeOf r"
  using assms
  by (cases "effective_from p"; cases "effective_from r")
     (simp_all add: dateGe_def dateOrEpoch_def timeOf_def)

lemma latestByType_general:
  assumes "\<forall>r \<in> set rows. scrap_type_id r = c \<longrightarrow> effective_from r \<noteq> BadStamp"
    and "\<forall>p. latest c = Some p \<longrightarrow> effective_from p \<noteq> BadStamp"
  shows "latestByType latest rows c =
           latestArrival ((case latest c of None \<Rightarrow> [] | Some p \<Rightarrow> [p]) @ rowsOf c rows)"
  using assms
proof (induction rows arbitrary: latest)
  case Nil
  then show ?case
    by (simp add: rowsOf_def latestArrival_def split: option.splits)
next
  case (Cons r rows)
  have valid: "\<forall>q \<in> set rows. scrap_type_id q = c \<longrightarrow> effective_from q \<noteq> BadStamp"
    using Cons.prems(1) by simp
  show ?case
  proof (cases "scrap_type_id r = c")
    case other: False
    have keep: "(latest(scrap_type_id r \<mapsto> r)) c = latest c"
      using other by simp
    have "latestByType (latest(scrap_type_id r \<mapsto> r)) rows c =
            latestArrival ((case (latest(scrap_type_id r \<mapsto> r)) c of
                              None \<Rightarrow> [] | Some p \<Rightarrow> [p]) @ rowsOf c rows)"
    proof (rule Cons.IH [of "latest(scrap_type_id r \<mapsto> r)", OF valid])
      show "\<forall>p. (latest(scrap_type_id r \<mapsto> r)) c = Some p \<longrightarrow> effective_from p \<noteq> BadStamp"
        using Cons.prems(2) by (simp only: keep)
    qed
    then have a: "latestByType (latest(scrap_type_id r \<mapsto> r)) rows c =
               latestArrival ((case latest c of None \<Rightarrow> [] | Some p \<Rightarrow> [p]) @ rowsOf c rows)"
      by (simp only: keep)
    have b: "latestByType latest rows c =
               latestArrival ((case latest c of None \<Rightarrow> [] | Some p \<Rightarrow> [p]) @ rowsOf c rows)"
      by (rule Cons.IH [of latest, OF valid Cons.prems(2)])
    have skip: "rowsOf c (r # rows) = rowsOf c rows"
      using other by (simp add: rowsOf_def)
    show ?thesis
      using a b by (simp add: skip Let_def split: option.splits)
  next
    case same: True
    have rv: "effective_from r \<noteq> BadStamp"
      using Cons.prems(1) same by simp
    have cons: "rowsOf c (r # rows) = r # rowsOf c rows"
      using same by (simp add: rowsOf_def)
    have "latestByType (latest(c \<mapsto> r)) rows c =
            latestArrival ((case (latest(c \<mapsto> r)) c of None \<Rightarrow> [] | Some p \<Rightarrow> [p])
                           @ rowsOf c rows)"
    proof (rule Cons.IH [of "latest(c \<mapsto> r)", OF valid])
      show "\<forall>p. (latest(c \<mapsto> r)) c = Some p \<longrightarrow> effective_from p \<noteq> BadStamp"
        using rv by simp
    qed
    then have put: "latestByType (latest(c \<mapsto> r)) rows c = latestArrival (r # rowsOf c rows)"
      by simp
    show ?thesis
    proof (cases "latest c")
      case None
      then show ?thesis
        using put same by (simp add: cons)
    next
      case (Some p)
      have pv: "effective_from p \<noteq> BadStamp"
        using Cons.prems(2) Some by simp
      have "latestByType latest rows c =
              latestArrival ((case latest c of None \<Rightarrow> [] | Some p \<Rightarrow> [p]) @ rowsOf c rows)"
        by (rule Cons.IH [of latest, OF valid Cons.prems(2)])
      then have stay: "latestByType latest rows c = latestArrival (p # rowsOf c rows)"
        using Some by simp
      show ?thesis
      proof (cases "timeOf p \<le> timeOf r")
        case True
        then show ?thesis
          using put same Some dateGe_timeOf [OF pv rv] latestArrival_later_or_equal [of p r]
          by (simp add: cons Let_def)
      next
        case False
        then have "timeOf r < timeOf p" by simp
        then show ?thesis
          using stay same Some dateGe_timeOf [OF pv rv] latestArrival_earlier [of r p]
          by (simp add: cons Let_def)
      qed
    qed
  qed
qed

lemma rowsOf_active: "rowsOf c (filter is_active table) = activeRowsOf c table"
  by (induction table) (auto simp: rowsOf_def activeRowsOf_def)

lemma latestArrival_mem:
  assumes "latestArrival rs = Some r"
  shows "r \<in> set rs \<and> (\<forall>q \<in> set rs. timeOf q \<le> timeOf r)"
proof -
  have ne: "rs \<noteq> []"
    using assms by (auto simp: latestArrival_def)
  then have "r = last (filter (\<lambda>r. list_all (\<lambda>q. timeOf q \<le> timeOf r) rs) rs)"
    using assms by (simp add: latestArrival_def)
  then have "r \<in> set (filter (\<lambda>r. list_all (\<lambda>q. timeOf q \<le> timeOf r) rs) rs)"
    using latest_filter_nonempty [OF ne] last_in_set by metis
  then show ?thesis
    by (simp add: list_all_iff)
qed

lemma latestByType_pair:
  assumes "scrap_type_id a = c" and "scrap_type_id b = c"
    and "effective_from a = Stamp s" and "effective_from b = Stamp t" and "s < t"
  shows "latestByType Map.empty [a, b] c = Some b" and "latestByType Map.empty [b, a] c = Some b"
proof -
  have ge: "dateGe (dateOrEpoch (effective_from b)) (dateOrEpoch (effective_from a))"
    and lt: "\<not> dateGe (dateOrEpoch (effective_from a)) (dateOrEpoch (effective_from b))"
    using assms(3-5) by (simp_all add: dateGe_def dateOrEpoch_def)
  show "latestByType Map.empty [a, b] c = Some b"
    using ge by (simp add: assms(1,2))
  show "latestByType Map.empty [b, a] c = Some b"
    using lt by (simp add: assms(1,2))
qed

lemma latestByType_tie:
  assumes "scrap_type_id a = c" and "scrap_type_id b = c"
    and "effective_from a \<noteq> BadStamp" and "effective_from b \<noteq> BadStamp"
    and "timeOf a = timeOf b"
  shows "latestByType Map.empty [a, b] c = Some b"
proof -
  have "dateGe (dateOrEpoch (effective_from b)) (dateOrEpoch (effective_from a))"
    using dateGe_timeOf [OF assms(3,4)] assms(5) by simp
  then show ?thesis
    by (simp add: assms(1,2))
qed

text \<open>
  C3, as the code has it. Dates are compared by the time value that \<^verbatim>\<open>new Date\<close> reads,
  in whole milliseconds, and a row without a date counts as dated at the epoch (time value
  0), not as earlier than every date. For the rows of a commodity whose dates, where
  present, are valid, the map holds under the commodity's id the row with the latest time
  value, and the last to arrive among those sharing it; that row is one of the rows received
  for the commodity and no row received for it has a later time value. The map built by
  \<^verbatim>\<open>getActiveRateByType\<close> from the table holds that row among the active rows. In
  particular, of two rows of one commodity with different time values the later is kept, in
  whichever order they arrive; of two rows with the same time value the one that arrives
  last is kept. So two stored timestamps that lie in different milliseconds give the later
  one, and two that lie in the same millisecond give the later arrival, whichever of them
  is the later timestamp.
\<close>

theorem latestByType_keeps_latest:
  "((\<forall>r \<in> set rows. scrap_type_id r = c \<longrightarrow> effective_from r \<noteq> BadStamp)
      \<longrightarrow> latestByType Map.empty rows c = latestArrival (rowsOf c rows)
          \<and> (\<forall>kept. latestByType Map.empty rows c = Some kept
                \<longrightarrow> kept \<in> set rows \<and> scrap_type_id kept = c
                    \<and> (\<forall>q \<in> set rows. scrap_type_id q = c \<longrightarrow> timeOf q \<le> timeOf kept)))
   \<and> ((\<forall>r \<in> set table. is_active r \<and> scrap_type_id r = c \<longrightarrow> effective_from r \<noteq> BadStamp)
      \<longrightarrow> (\<exists>m. getActiveRateByType None table = Inr m
               \<and> m c = latestArrival (activeRowsOf c table)))
   \<and> (scrap_type_id a = c \<and> scrap_type_id b = c \<and>
      effective_from a = Stamp s \<and> effective_from b = Stamp t \<and> s < t
      \<longrightarrow> latestByType Map.empty [a, b] c = Some b \<and> latestByType Map.empty [b, a] c = Some b)
   \<and> (scrap_type_id a = c \<and> scrap_type_id b = c \<and>
      effective_from a \<noteq> BadStamp \<and> effective_from b \<noteq> BadStamp \<and> timeOf a = timeOf b
      \<longrightarrow> latestByType Map.empty [a, b] c = Some b)
   \<and> (scrap_type_id a = c \<and> scrap_type_id b = c \<and>
      effective_from a = storedAt u \<and> effective_from b = storedAt v
      \<longrightarrow> (u div 1000 < v div 1000
             \<longrightarrow> latestByType Map.empty [a, b] c = Some b
                 \<and> latestByType Map.empty [b, a] c = Some b)
          \<and> (u div 1000 = v div 1000
             \<longrightarrow> latestByType Map.empty [a, b] c = Some b
                 \<and> latestByType Map.empty [b, a] c = Some a))"
proof -
  have one: "latestByType Map.empty rows c = latestArrival (rowsOf c rows)
          \<and> (\<forall>kept. latestByType Map.empty rows c = Some kept
                \<longrightarrow> kept \<in> set rows \<and> scrap_type_id kept = c
                    \<and> (\<forall>q \<in> set rows. scrap_type_id q = c \<longrightarrow> timeOf q \<le> timeOf kept))"
    if v: "\<forall>r \<in> set rows. scrap_type_id r = c \<longrightarrow> effective_from r \<noteq> BadStamp"
  proof -
    have e: "Map.empty c = (None :: rate_row option)" by simp
    have main: "latestByType Map.empty rows c = latestArrival (rowsOf c rows)"
      using latestByType_general [of rows c Map.empty, OF v] by simp
    have "kept \<in> set rows \<and> scrap_type_id kept = c
            \<and> (\<forall>q \<in> set rows. scrap_type_id q = c \<longrightarrow> timeOf q \<le> timeOf kept)"
      if k: "latestByType Map.empty rows c = Some kept" for kept
    proof -
      have "latestArrival (rowsOf c rows) = Some kept"
        using k main by simp
      from latestArrival_mem [OF this]
      show ?thesis by (simp add: rowsOf_def)
    qed
    then show ?thesis using main by blast
  qed
  have two: "\<exists>m. getActiveRateByType None table = Inr m
               \<and> m c = latestArrival (activeRowsOf c table)"
    if v: "\<forall>r \<in> set table. is_active r \<and> scrap_type_id r = c \<longrightarrow> effective_from r \<noteq> BadStamp"
  proof -
    have v': "\<forall>r \<in> set (filter is_active table). scrap_type_id r = c \<longrightarrow> effective_from r \<noteq> BadStamp"
      using v by simp
    have "latestByType Map.empty (filter is_active table) c
               = latestArrival (rowsOf c (filter is_active table))"
      using latestByType_general [of "filter is_active table" c Map.empty, OF v'] by simp
    then show ?thesis
      by (simp add: getActiveRateByType_def rowsOf_active)
  qed
  have three: "latestByType Map.empty [a, b] c = Some b \<and> latestByType Map.empty [b, a] c = Some b"
    if "scrap_type_id a = c \<and> scrap_type_id b = c \<and>
      effective_from a = Stamp s \<and> effective_from b = Stamp t \<and> s < t"
    using that latestByType_pair [of a c b s t] by blast
  have four: "latestByType Map.empty [a, b] c = Some b"
    if "scrap_type_id a = c \<and> scrap_type_id b = c \<and>
      effective_from a \<noteq> BadStamp \<and> effective_from b \<noteq> BadStamp \<and> timeOf a = timeOf b"
    using that latestByType_tie [of a c b] by blast
  have five: "(u div 1000 < v div 1000
             \<longrightarrow> latestByType Map.empty [a, b] c = Some b
                 \<and> latestByType Map.empty [b, a] c = Some b)
          \<and> (u div 1000 = v div 1000
             \<longrightarrow> latestByType Map.empty [a, b] c = Some b
                 \<and> latestByType Map.empty [b, a] c = Some a)"
    if h: "scrap_type_id a = c \<and> scrap_type_id b = c \<and>
      effective_from a = storedAt u \<and> effective_from b = storedAt v"
  proof -
    have ea: "effective_from a = Stamp (u div 1000)" and eb: "effective_from b = Stamp (v div 1000)"
      using h by (simp_all add: storedAt_def)
    have ta: "timeOf a = u div 1000" and tb: "timeOf b = v div 1000"
      using ea eb by (simp_all add: timeOf_def)
    have nb: "effective_from a \<noteq> BadStamp" "effective_from b \<noteq> BadStamp"
      using ea eb by simp_all
    have lt: "latestByType Map.empty [a, b] c = Some b \<and> latestByType Map.empty [b, a] c = Some b"
      if "u div 1000 < v div 1000"
      using that h ea eb latestByType_pair [of a c b "u div 1000" "v div 1000"] by blast
    have eq: "latestByType Map.empty [a, b] c = Some b \<and> latestByType Map.empty [b, a] c = Some a"
      if "u div 1000 = v div 1000"
      using that h nb ta tb latestByType_tie [of a c b] latestByType_tie [of b c a] by simp
    show ?thesis
      using lt eq by blast
  qed
  show ?thesis
    using one two three four five by blast
qed

theorem latestByType_keeps_latest_witness:
  "latestByType Map.empty
     [rateRow ''copper'' (Finite 5) (Stamp 10) True, rateRow ''iron'' (Finite 2) NoStamp True,
      rateRow ''copper'' (Finite 6) (Stamp 30) True, rateRow ''copper'' (Finite 7) (Stamp 30) True,
      rateRow ''copper'' (Finite 4) (Stamp 20) True] ''copper''
     = Some (rateRow ''copper'' (Finite 7) (Stamp 30) True)
   \<and> (\<exists>m. getActiveRateByType None
        [rateRow ''copper'' (Finite 5) (Stamp 10) True, rateRow ''iron'' (Finite 2) NoStamp True,
         rateRow ''copper'' (Finite 6) (Stamp 30) False, rateRow ''copper'' (Finite 4) (Stamp 20) True]
          = Inr m
        \<and> m ''copper'' = Some (rateRow ''copper'' (Finite 4) (Stamp 20) True))
   \<and> latestByType Map.empty
       [rateRow ''copper'' (Finite 6) (Stamp 30) True, rateRow ''copper'' (Finite 4) (Stamp 20) True]
       ''copper''
     = Some (rateRow ''copper'' (Finite 6) (Stamp 30) True)
   \<and> latestByType Map.empty
       [rateRow ''copper'' (Finite 4) (storedAt 1704067200000400) True,
        rateRow ''copper'' (Finite 5) (storedAt 1704067200000100) True] ''copper''
     = Some (rateRow ''copper'' (Finite 5) (storedAt 1704067200000100) True)
   \<and> latestByType Map.empty
       [rateRow ''copper'' (Finite 5) (storedAt 1704067200000100) True,
        rateRow ''copper'' (Finite 4) (storedAt 1704067200000400) True] ''copper''
     = Some (rateRow ''copper'' (Finite 4) (storedAt 1704067200000400) True)
   \<and> latestByType Map.empty
       [rateRow ''copper'' (Finite 5) (storedAt 1704067200001100) True,
        rateRow ''copper'' (Finite 4) (storedAt 1704067200000400) True] ''copper''
     = Some (rateRow ''copper'' (Finite 5) (storedAt 1704067200001100) True)"
proof -
  let ?rows = "[rateRow ''copper'' (Finite 5) (Stamp 10) True, rateRow ''iron'' (Finite 2) NoStamp True,
      rateRow ''copper'' (Finite 6) (Stamp 30) True, rateRow ''copper'' (Finite 7) (Stamp 30) True,
      rateRow ''copper'' (Finite 4) (Stamp 20) True]"
  let ?table = "[rateRow ''copper'' (Finite 5) (Stamp 10) True, rateRow ''iron'' (Finite 2) NoStamp True,
         rateRow ''copper'' (Finite 6) (Stamp 30) False, rateRow ''copper'' (Finite 4) (Stamp 20) True]"
  note t = latestByType_keeps_latest
    [of ?rows "''copper''" ?table "rateRow ''copper'' (Finite 4) (Stamp 20) True"
        "rateRow ''copper'' (Finite 6) (Stamp 30) True" 20 30]
  have v1: "\<forall>r \<in> set ?rows. scrap_type_id r = ''copper'' \<longrightarrow> effective_from r \<noteq> BadStamp"
    by (simp add: rateRow_def)
  have v2: "\<forall>r \<in> set ?table. is_active r \<and> scrap_type_id r = ''copper'' \<longrightarrow> effective_from r \<noteq> BadStamp"
    by (simp add: rateRow_def)
  have l1: "latestArrival (rowsOf ''copper'' ?rows) = Some (rateRow ''copper'' (Finite 7) (Stamp 30) True)"
    by (simp add: latestArrival_def rowsOf_def rateRow_def timeOf_def)
  have l2: "latestArrival (activeRowsOf ''copper'' ?table)
              = Some (rateRow ''copper'' (Finite 4) (Stamp 20) True)"
    by (simp add: latestArrival_def activeRowsOf_def rateRow_def timeOf_def)
  have h3: "scrap_type_id (rateRow ''copper'' (Finite 4) (Stamp 20) True) = ''copper''"
    "scrap_type_id (rateRow ''copper'' (Finite 6) (Stamp 30) True) = ''copper''"
    "effective_from (rateRow ''copper'' (Finite 4) (Stamp 20) True) = Stamp 20"
    "effective_from (rateRow ''copper'' (Finite 6) (Stamp 30) True) = Stamp 30"
    by (simp_all add: rateRow_def)
  have a: "latestByType Map.empty ?rows ''copper'' = Some (rateRow ''copper'' (Finite 7) (Stamp 30) True)"
  proof -
    from t have "(\<forall>r \<in> set ?rows. scrap_type_id r = ''copper'' \<longrightarrow> effective_from r \<noteq> BadStamp)
      \<longrightarrow> latestByType Map.empty ?rows ''copper'' = latestArrival (rowsOf ''copper'' ?rows)"
      by blast
    then have "latestByType Map.empty ?rows ''copper'' = latestArrival (rowsOf ''copper'' ?rows)"
      using v1 by (rule mp)
    then show ?thesis by (simp only: l1)
  qed
  have b: "\<exists>m. getActiveRateByType None ?table = Inr m
        \<and> m ''copper'' = Some (rateRow ''copper'' (Finite 4) (Stamp 20) True)"
  proof -
    from t have "(\<forall>r \<in> set ?table. is_active r \<and> scrap_type_id r = ''copper'' \<longrightarrow> effective_from r \<noteq> BadStamp)
      \<longrightarrow> (\<exists>m. getActiveRateByType None ?table = Inr m
               \<and> m ''copper'' = latestArrival (activeRowsOf ''copper'' ?table))"
      by blast
    then have "\<exists>m. getActiveRateByType None ?table = Inr m
               \<and> m ''copper'' = latestArrival (activeRowsOf ''copper'' ?table)"
      using v2 by (rule mp)
    then show ?thesis by (simp only: l2)
  qed
  have c: "latestByType Map.empty
       [rateRow ''copper'' (Finite 6) (Stamp 30) True, rateRow ''copper'' (Finite 4) (Stamp 20) True]
       ''copper''
     = Some (rateRow ''copper'' (Finite 6) (Stamp 30) True)"
  proof -
    from t have "scrap_type_id (rateRow ''copper'' (Finite 4) (Stamp 20) True) = ''copper'' \<and>
        scrap_type_id (rateRow ''copper'' (Finite 6) (Stamp 30) True) = ''copper'' \<and>
        effective_from (rateRow ''copper'' (Finite 4) (Stamp 20) True) = Stamp 20 \<and>
        effective_from (rateRow ''copper'' (Finite 6) (Stamp 30) True) = Stamp 30 \<and> (20::int) < 30
      \<longrightarrow> latestByType Map.empty
            [rateRow ''copper'' (Finite 4) (Stamp 20) True,
             rateRow ''copper'' (Finite 6) (Stamp 30) True] ''copper''
            = Some (rateRow ''copper'' (Finite 6) (Stamp 30) True)
          \<and> latestByType Map.empty
            [rateRow ''copper'' (Finite 6) (Stamp 30) True,
             rateRow ''copper'' (Finite 4) (Stamp 20) True] ''copper''
            = Some (rateRow ''copper'' (Finite 6) (Stamp 30) True)"
      by blast
    then show ?thesis using h3 by simp
  qed
  have ids: "scrap_type_id (rateRow k n d f) = k" "effective_from (rateRow k n d f) = d" for k n d f
    by (simp_all add: rateRow_def)
  have same: "(1704067200000400 :: int) div 1000 = 1704067200000100 div 1000"
    and later: "(1704067200000400 :: int) div 1000 < 1704067200001100 div 1000"
    by simp_all
  have tie: "timeOf (rateRow ''copper'' (Finite 4) (storedAt 1704067200000400) True)
               = timeOf (rateRow ''copper'' (Finite 5) (storedAt 1704067200000100) True)"
    and valid: "storedAt 1704067200000400 \<noteq> BadStamp" "storedAt 1704067200000100 \<noteq> BadStamp"
    by (simp_all add: timeOf_def rateRow_def storedAt_def)
  let ?p = "rateRow ''copper'' (Finite 4) (storedAt 1704067200000400) True"
  let ?q = "rateRow ''copper'' (Finite 5) (storedAt 1704067200000100) True"
  let ?r = "rateRow ''copper'' (Finite 5) (storedAt 1704067200001100) True"
  note t2 = latestByType_keeps_latest
    [of "[]" "''copper''" "[]" ?p ?q 0 0 1704067200000400 1704067200000100]
  note t3 = latestByType_keeps_latest
    [of "[]" "''copper''" "[]" ?p ?r 0 0 1704067200000400 1704067200001100]
  have d: "latestByType Map.empty [?p, ?q] ''copper'' = Some ?q"
  proof -
    from t2 have "scrap_type_id ?p = ''copper'' \<and> scrap_type_id ?q = ''copper'' \<and>
        effective_from ?p \<noteq> BadStamp \<and> effective_from ?q \<noteq> BadStamp \<and> timeOf ?p = timeOf ?q
      \<longrightarrow> latestByType Map.empty [?p, ?q] ''copper'' = Some ?q"
      by blast
    then show ?thesis
      using ids tie valid by (simp only: simp_thms)
  qed
  have e: "latestByType Map.empty [?q, ?p] ''copper'' = Some ?p"
  proof -
    from t2 have "scrap_type_id ?p = ''copper'' \<and> scrap_type_id ?q = ''copper'' \<and>
        effective_from ?p = storedAt 1704067200000400 \<and>
        effective_from ?q = storedAt 1704067200000100
      \<longrightarrow> ((1704067200000400 :: int) div 1000 = 1704067200000100 div 1000
            \<longrightarrow> latestByType Map.empty [?p, ?q] ''copper'' = Some ?q
                \<and> latestByType Map.empty [?q, ?p] ''copper'' = Some ?p)"
      by blast
    then show ?thesis
      using ids same by (simp only: simp_thms)
  qed
  have f: "latestByType Map.empty [?r, ?p] ''copper'' = Some ?r"
  proof -
    from t3 have "scrap_type_id ?p = ''copper'' \<and> scrap_type_id ?r = ''copper'' \<and>
        effective_from ?p = storedAt 1704067200000400 \<and>
        effective_from ?r = storedAt 1704067200001100
      \<longrightarrow> ((1704067200000400 :: int) div 1000 < 1704067200001100 div 1000
            \<longrightarrow> latestByType Map.empty [?p, ?r] ''copper'' = Some ?r
                \<and> latestByType Map.empty [?r, ?p] ''copper'' = Some ?r)"
      by blast
    then show ?thesis
      using ids later by (simp only: simp_thms)
  qed
  show ?thesis
    using a b c d e f by blast
qed

text \<open>
  Two rows of one commodity: the first dated one millisecond before the epoch, the second
  without a date. The map keeps the second; with a missing date as the earliest instant the
  first would be the latest. And two rows of one commodity stored in the same millisecond,
  the first 300 microseconds after the second: their timestamps differ, and the map keeps
  the second, which is the earlier.
\<close>

theorem latestByType_absent_date_counterexample:
  "latestByType Map.empty
     [rateRow ''copper'' (Finite 4) (Stamp (- 1)) True, rateRow ''copper'' (Finite 5) NoStamp True]
     ''copper''
     = Some (rateRow ''copper'' (Finite 5) NoStamp True)
   \<and> latestArrivalAbsentEarliest
       (rowsOf ''copper''
          [rateRow ''copper'' (Finite 4) (Stamp (- 1)) True, rateRow ''copper'' (Finite 5) NoStamp True])
     = Some (rateRow ''copper'' (Finite 4) (Stamp (- 1)) True)
   \<and> rateRow ''copper'' (Finite 5) NoStamp True \<noteq> rateRow ''copper'' (Finite 4) (Stamp (- 1)) True
   \<and> (1704067200000100 :: int) < 1704067200000400
   \<and> latestByType Map.empty
       [rateRow ''copper'' (Finite 4) (storedAt 1704067200000400) True,
        rateRow ''copper'' (Finite 5) (storedAt 1704067200000100) True] ''copper''
     = Some (rateRow ''copper'' (Finite 5) (storedAt 1704067200000100) True)
   \<and> rateRow ''copper'' (Finite 5) (storedAt 1704067200000100) True
     \<noteq> rateRow ''copper'' (Finite 4) (storedAt 1704067200000400) True"
  by (simp add: rateRow_def dateGe_def dateOrEpoch_def latestArrivalAbsentEarliest_def
        notLaterAbsentEarliest_def rowsOf_def storedAt_def)

section \<open>Responses with status 500\<close>

lemma status_failure [simp]: "status (failure code msg) = code"
  by (simp add: failure_def)

lemma requireAdmin_500:
  assumes "requireAdmin x req = (made, Inl sent)" and "status sent = 500"
  shows "adminCheckCaught x req sent"
  using assms
  unfolding requireAdmin_def requireAdminEnabled_def adminCheckCaught_def Let_def
  by (auto split: option.splits sum.splits reply.splits if_splits; blast)

lemma getVendors_500:
  assumes "getVendors x req = (made, sent)" and "status sent = 500"
  shows "adminCheckCaught x req sent
       \<or> (\<exists>e. (createServiceClient (processEnv x) = Inl e
                \<or> (\<exists>supabase. selectVendorBackends x supabase = Throws e))
              \<and> sent = failure 500 (messageOr e ''Admin request failed''))"
proof (cases "requireAdmin x req")
  case (Pair checked outcome)
  show ?thesis
  proof (cases outcome)
    case (Inl denied)
    then have "sent = denied" using assms(1) Pair by (simp add: getVendors_def)
    then show ?thesis using requireAdmin_500 [of x req checked denied] Pair Inl assms(2) by simp
  next
    case (Inr userId)
    then show ?thesis
      using assms Pair
      by (auto simp: getVendors_def split: sum.splits reply.splits option.splits)
  qed
qed

lemma postScrapRates_500:
  assumes "postScrapRates x req table = (made, sent, table')" and "status sent = 500"
  shows "adminCheckCaught x req sent
       \<or> (\<exists>e. (createServiceClient (processEnv x) = Inl e
                \<or> deactivateFault x = Some (Failed e) \<or> insertFault x = Some (Failed e))
              \<and> sent = failure 500 (messageOr e ''Admin request failed''))"
proof (cases "requireAdmin x req")
  case (Pair checked outcome)
  show ?thesis
  proof (cases outcome)
    case (Inl denied)
    then have "sent = denied" using assms(1) Pair by (simp add: postScrapRates_def)
    then show ?thesis using requireAdmin_500 [of x req checked denied] Pair Inl assms(2) by simp
  next
    case (Inr userId)
    then show ?thesis
      using assms Pair
      by (auto simp: postScrapRates_def Let_def
               split: sum.splits option.splits fault.splits if_splits)
  qed
qed

text \<open>
  C8, as the code has it. A response with status 500 of the admin check, of \<^verbatim>\<open>GET /vendors\<close> or of
  \<^verbatim>\<open>POST /scrap-rates\<close> is written by a catch clause, and its error text is
  \<^verbatim>\<open>e?.message || fallback\<close> for the exception caught: the message of the exception
  itself whenever it has one that is not empty, and the fixed text of the clause only
  otherwise. Only the error handler of the application, which sees the errors that no
  route has caught, answers with a fixed text whatever the error.
\<close>

theorem server_error_carries_exception_message:
  "(requireAdmin x req = (made, Inl sent) \<and> status sent = 500 \<longrightarrow> adminCheckCaught x req sent)
   \<and> (getVendors x req = (made, sent) \<and> status sent = 500 \<longrightarrow>
        adminCheckCaught x req sent
        \<or> (\<exists>e. (createServiceClient (processEnv x) = Inl e
                 \<or> (\<exists>supabase. selectVendorBackends x supabase = Throws e))
               \<and> sent = failure 500 (messageOr e ''Admin request failed'')))
   \<and> (postScrapRates x req table = (made, sent, table') \<and> status sent = 500 \<longrightarrow>
        adminCheckCaught x req sent
        \<or> (\<exists>e. (createServiceClient (processEnv x) = Inl e
                 \<or> deactivateFault x = Some (Failed e) \<or> insertFault x = Some (Failed e))
               \<and> sent = failure 500 (messageOr e ''Admin request failed'')))
   \<and> (msg \<noteq> [] \<longrightarrow> messageOr (Error msg) fallback = msg)
   \<and> messageOr (Error []) fallback = fallback
   \<and> messageOr Thrown fallback = fallback
   \<and> unexpectedServerError err = failure 500 ''Internal Server Error''"
  using requireAdmin_500 [of x req made sent] getVendors_500 [of x req made sent]
    postScrapRates_500 [of x req table made sent table']
  by (simp add: messageOr_def unexpectedServerError_def)

lemma crashing_admitted:
  "requireAdmin (crashing twoProjects msg) (setRate c n) =
     ([GetBearerToken,
       AuthGetUser (clientOf ''https://auth.example'' ''anon-key'' (Some ''Bearer token'')),
       SelectProfileRole (clientOf ''https://data.example'' ''service-key'' None) ''u1''],
      Inr ''u1'')"
proof -
  have "requireAdmin (crashing twoProjects msg) (setRate c n) =
     ([GetBearerToken,
       AuthGetUser (clientOf ''https://auth.example'' ''anon-key'' (Some (''Bearer '' @ ''token''))),
       SelectProfileRole (clientOf ''https://data.example'' ''service-key'' None) ''u1''],
      if toLowerCase (stringOrEmpty (case resultData \<lparr> resultError = None,
                        resultData = Some \<lparr> role = Some ''admin'' \<rparr> \<rparr> of
                                       None \<Rightarrow> None | Some p \<Rightarrow> role p)) \<noteq> ''admin''
      then Inl (failure 403 ''Admin access required'') else Inr ''u1'')"
    by (rule requireAdmin_lookup [where jwt = "''token''"
          and got = "\<lparr> resultError = None, resultData = Some ''u1'' \<rparr>"])
       (simp_all add: twoProjects_allowed twoProjects_anon twoProjects_service
          setRate_def healthy_def crashing_def)
  then show ?thesis
    by (simp add: toLowerCase_def toLowerChar_def isUpperCase_def)
qed

lemma portal_only_allowed: "isAdminPortalAllowed [''ALLOW_ADMIN_PORTAL'' \<mapsto> ''true'']"
  by (simp add: isAdminPortalAllowed_def toLowerCase_def toLowerChar_def isUpperCase_def)

lemma portal_only_check:
  "requireAdmin (healthy [''ALLOW_ADMIN_PORTAL'' \<mapsto> ''true''] (Some ''admin''))
     (setRate ''copper'' (Finite 5))
   = ([GetBearerToken],
      Inl (failure 500 ''Missing required env var: ADMIN_AUTH_SUPABASE_URL''))"
proof -
  have "createAnonClientWithJwt [''ALLOW_ADMIN_PORTAL'' \<mapsto> ''true''] ''token''
          = Inl (missingEnvVar ''ADMIN_AUTH_SUPABASE_URL'')"
    by (simp add: createAnonClientWithJwt_def getAuthProjectEnv_def requireEnvFromPair_def
          orElse_def truthy_def)
  then show ?thesis
    by (simp add: requireAdmin_def requireAdminEnabled_def portal_only_allowed setRate_def
          truthy_def missingEnvVar_def messageOr_def)
qed

lemma crashing_vendors:
  "getVendors (crashing twoProjects ''connect ECONNREFUSED 10.0.0.5:5432'')
     (setRate ''copper'' (Finite 5))
   = ([GetBearerToken,
       AuthGetUser (clientOf ''https://auth.example'' ''anon-key'' (Some ''Bearer token'')),
       SelectProfileRole (clientOf ''https://data.example'' ''service-key'' None) ''u1'',
       SelectVendorBackends (clientOf ''https://data.example'' ''service-key'' None)],
      failure 500 ''connect ECONNREFUSED 10.0.0.5:5432'')"
proof -
  have e: "processEnv (crashing twoProjects ''connect ECONNREFUSED 10.0.0.5:5432'') = twoProjects"
    and v: "selectVendorBackends (crashing twoProjects ''connect ECONNREFUSED 10.0.0.5:5432'') c
              = Throws (Error ''connect ECONNREFUSED 10.0.0.5:5432'')" for c
    by (simp_all add: crashing_def healthy_def)
  show ?thesis
    by (simp add: getVendors_def crashing_admitted e v twoProjects_service messageOr_def)
qed

lemma crashing_rates:
  "postScrapRates (crashing twoProjects ''connect ECONNREFUSED 10.0.0.5:5432'')
     (setRate ''copper'' (Finite 5)) []
   = ([GetBearerToken,
       AuthGetUser (clientOf ''https://auth.example'' ''anon-key'' (Some ''Bearer token'')),
       SelectProfileRole (clientOf ''https://data.example'' ''service-key'' None) ''u1'',
       DeactivateRates (clientOf ''https://data.example'' ''service-key'' None) ''copper'',
       InsertRate (clientOf ''https://data.example'' ''service-key'' None)
         (rateRow ''copper'' (Finite 5) (Stamp 1700000000000) True)],
      failure 500 ''connect ECONNREFUSED 10.0.0.5:5432'', [])"
proof -
  have e: "processEnv (crashing twoProjects ''connect ECONNREFUSED 10.0.0.5:5432'') = twoProjects"
    "deactivateFault (crashing twoProjects ''connect ECONNREFUSED 10.0.0.5:5432'') = None"
    "insertFault (crashing twoProjects ''connect ECONNREFUSED 10.0.0.5:5432'')
       = Some (Failed (Error ''connect ECONNREFUSED 10.0.0.5:5432''))"
    "now (crashing twoProjects ''connect ECONNREFUSED 10.0.0.5:5432'') = 1700000000000"
    by (simp_all add: crashing_def healthy_def)
  have r: "bodyScrapTypeId (setRate ''copper'' (Finite 5)) = Some ''copper''"
    "toNumber (bodyRatePerKg (setRate ''copper'' (Finite 5))) = Finite 5"
    by (simp_all add: setRate_def toNumber_def)
  have t: "trim ''copper'' = ''copper''"
    by (simp add: trim_def isWhiteSpace_def)
  show ?thesis
    by (simp add: postScrapRates_def crashing_admitted e r t twoProjects_service messageOr_def
          isFinite_def leZero_def rateRow_def deactivate_def Let_def)
qed

theorem server_error_carries_exception_message_witness:
  "adminCheckCaught (healthy [''ALLOW_ADMIN_PORTAL'' \<mapsto> ''true''] (Some ''admin''))
     (setRate ''copper'' (Finite 5))
     (failure 500 ''Missing required env var: ADMIN_AUTH_SUPABASE_URL'')
   \<and> (adminCheckCaught (crashing twoProjects ''connect ECONNREFUSED 10.0.0.5:5432'')
         (setRate ''copper'' (Finite 5)) (failure 500 ''connect ECONNREFUSED 10.0.0.5:5432'')
      \<or> (\<exists>e. (createServiceClient
                  (processEnv (crashing twoProjects ''connect ECONNREFUSED 10.0.0.5:5432'')) = Inl e
               \<or> (\<exists>supabase. selectVendorBackends
                     (crashing twoProjects ''connect ECONNREFUSED 10.0.0.5:5432'') supabase
                     = Throws e))
             \<and> failure 500 ''connect ECONNREFUSED 10.0.0.5:5432''
                 = failure 500 (messageOr e ''Admin request failed'')))
   \<and> (adminCheckCaught (crashing twoProjects ''connect ECONNREFUSED 10.0.0.5:5432'')
         (setRate ''copper'' (Finite 5)) (failure 500 ''connect ECONNREFUSED 10.0.0.5:5432'')
      \<or> (\<exists>e. (createServiceClient
                  (processEnv (crashing twoProjects ''connect ECONNREFUSED 10.0.0.5:5432'')) = Inl e
               \<or> deactivateFault (crashing twoProjects ''connect ECONNREFUSED 10.0.0.5:5432'')
                   = Some (Failed e)
               \<or> insertFault (crashing twoProjects ''connect ECONNREFUSED 10.0.0.5:5432'')
                   = Some (Failed e))
             \<and> failure 500 ''connect ECONNREFUSED 10.0.0.5:5432''
                 = failure 500 (messageOr e ''Admin request failed'')))
   \<and> messageOr (Error ''boom'') ''Admin request failed'' = ''boom''"
proof -
  note g = server_error_carries_exception_message
    [of "healthy [''ALLOW_ADMIN_PORTAL'' \<mapsto> ''true''] (Some ''admin'')"
        "setRate ''copper'' (Finite 5)" "[GetBearerToken]"
        "failure 500 ''Missing required env var: ADMIN_AUTH_SUPABASE_URL''"
        "[]" "[]" "''boom''" "''Admin request failed''"]
  have one: "adminCheckCaught (healthy [''ALLOW_ADMIN_PORTAL'' \<mapsto> ''true''] (Some ''admin''))
     (setRate ''copper'' (Finite 5))
     (failure 500 ''Missing required env var: ADMIN_AUTH_SUPABASE_URL'')"
    and four: "messageOr (Error ''boom'') ''Admin request failed'' = ''boom''"
    using g portal_only_check by simp_all
  note v = server_error_carries_exception_message
    [of "crashing twoProjects ''connect ECONNREFUSED 10.0.0.5:5432''"
        "setRate ''copper'' (Finite 5)"
        "fst (getVendors (crashing twoProjects ''connect ECONNREFUSED 10.0.0.5:5432'')
               (setRate ''copper'' (Finite 5)))"
        "failure 500 ''connect ECONNREFUSED 10.0.0.5:5432''"
        "[]" "[]" "''boom''" "''Admin request failed''"]
  have two: "adminCheckCaught (crashing twoProjects ''connect ECONNREFUSED 10.0.0.5:5432'')
         (setRate ''copper'' (Finite 5)) (failure 500 ''connect ECONNREFUSED 10.0.0.5:5432'')
      \<or> (\<exists>e. (createServiceClient
                  (processEnv (crashing twoProjects ''connect ECONNREFUSED 10.0.0.5:5432'')) = Inl e
               \<or> (\<exists>supabase. selectVendorBackends
                     (crashing twoProjects ''connect ECONNREFUSED 10.0.0.5:5432'') supabase
                     = Throws e))
             \<and> failure 500 ''connect ECONNREFUSED 10.0.0.5:5432''
                 = failure 500 (messageOr e ''Admin request failed''))"
    using v crashing_vendors by simp
  note p = server_error_carries_exception_message
    [of "crashing twoProjects ''connect ECONNREFUSED 10.0.0.5:5432''"
        "setRate ''copper'' (Finite 5)"
        "fst (postScrapRates (crashing twoProjects ''connect ECONNREFUSED 10.0.0.5:5432'')
               (setRate ''copper'' (Finite 5)) [])"
        "failure 500 ''connect ECONNREFUSED 10.0.0.5:5432''"
        "[]" "[]" "''boom''" "''Admin request failed''"]
  have three: "adminCheckCaught (crashing twoProjects ''connect ECONNREFUSED 10.0.0.5:5432'')
         (setRate ''copper'' (Finite 5)) (failure 500 ''connect ECONNREFUSED 10.0.0.5:5432'')
      \<or> (\<exists>e. (createServiceClient
                  (processEnv (crashing twoProjects ''connect ECONNREFUSED 10.0.0.5:5432'')) = Inl e
               \<or> deactivateFault (crashing twoProjects ''connect ECONNREFUSED 10.0.0.5:5432'')
                   = Some (Failed e)
               \<or> insertFault (crashing twoProjects ''connect ECONNREFUSED 10.0.0.5:5432'')
                   = Some (Failed e))
             \<and> failure 500 ''connect ECONNREFUSED 10.0.0.5:5432''
                 = failure 500 (messageOr e ''Admin request failed''))"
    using p crashing_rates by simp
  show ?thesis
    using one two three four by blast
qed

text \<open>
  With only \<^verbatim>\<open>ALLOW_ADMIN_PORTAL\<close> set, a request with a token is answered 500 with the
  message of the configuration error, which names the missing variable. With the vendor
  query or the insert of a rate throwing an error whose message is a connection failure
  with an address, the response is 500 with that message.
\<close>

theorem server_error_leaks_message_counterexample:
  "snd (requireAdmin (healthy [''ALLOW_ADMIN_PORTAL'' \<mapsto> ''true''] (Some ''admin''))
          (setRate ''copper'' (Finite 5)))
     = Inl \<lparr> status = 500,
             body = Failure ''Missing required env var: ADMIN_AUTH_SUPABASE_URL'' \<rparr>
   \<and> snd (getVendors (crashing twoProjects ''connect ECONNREFUSED 10.0.0.5:5432'')
            (setRate ''copper'' (Finite 5)))
     = \<lparr> status = 500, body = Failure ''connect ECONNREFUSED 10.0.0.5:5432'' \<rparr>
   \<and> fst (snd (postScrapRates (crashing twoProjects ''connect ECONNREFUSED 10.0.0.5:5432'')
                 (setRate ''copper'' (Finite 5)) []))
     = \<lparr> status = 500, body = Failure ''connect ECONNREFUSED 10.0.0.5:5432'' \<rparr>"
  by (simp add: portal_only_check crashing_vendors crashing_rates failure_def)

end
